theory Spec2Isabelle
  imports Complex_Main "HOL-Library.AList" "HOL-Library.Char_ord" "HOL-Library.List_Lexorder"
begin

section \<open>Python values\<close>

text \<open>
  The program is dynamically typed: what an upstream sends is whatever its JSON body
  decodes to, and the endpoints walk it with \<^verbatim>\<open>.get\<close>, subscripts and loops.
  A Python value is therefore one datatype. Strings are byte lists in UTF-8, whose
  lexicographic order is Python's order on code points. The keys of a dict are the hashable
  values; \<^verbatim>\<open>True\<close> and \<^verbatim>\<open>1\<close> are one key, as in Python, and a dict holds a key as the
  \<open>hkey\<close> it hashes to (the keys of a decoded JSON object are strings). The association
  list of a \<open>PyDict\<close> holds the items in insertion order, each key once.

  A number is the rational it denotes, whether Python holds it as an \<^verbatim>\<open>int\<close> or as a
  \<^verbatim>\<open>float\<close>. On \<^verbatim>\<open>int\<close>s this is Python's arithmetic, which is exact, and an \<^verbatim>\<open>int\<close> that
  meets a \<^verbatim>\<open>float\<close> or a true division raises \<^verbatim>\<open>OverflowError\<close> when it is beyond the
  range of a double (\<open>float_overflow\<close>). On \<^verbatim>\<open>float\<close>s it is an idealisation: a sum or a
  quotient is the exact one, where Python returns the double nearest to it, and the values
  NaN and infinity (which the JSON decoder accepts) are not represented. The theorems that
  depend on the value of a sum or a quotient therefore say under which condition on the
  numbers the exact value is the one Python computes.
\<close>

datatype hkey = KNone | KNum rat | KStr string

datatype pyval =
    PyNone
  | PyBool bool
  | PyNum rat
  | PyStr string
  | PyList "pyval list"
  | PyDict "(hkey \<times> pyval) list"

text \<open>
  The exceptions the code can meet. A \<open>RequestException\<close> is what the three calls
  \<^verbatim>\<open>requests.get\<close>, \<^verbatim>\<open>raise_for_status\<close> and \<^verbatim>\<open>json\<close> raise (the last one since requests
  2.27, where \<^verbatim>\<open>JSONDecodeError\<close> became a \<^verbatim>\<open>RequestException\<close>). An \<open>HTTPException\<close>
  carries its status code and its detail. \<^verbatim>\<open>RecursionError\<close> and \<^verbatim>\<open>ValueError\<close> are what
  the JSON decoder raises, besides \<^verbatim>\<open>JSONDecodeError\<close>, on a body it cannot take in.
\<close>

datatype request_exception = TransportError | HTTPError nat | JSONDecodeError

datatype py_error =
    RequestException request_exception
  | HTTPException nat string
  | AttributeError
  | KeyError
  | TypeError
  | OverflowError
  | RecursionError
  | ValueError

subsection \<open>The operations of Python the endpoints use\<close>

text \<open>Truth value testing, as \<^verbatim>\<open>if x\<close>, \<^verbatim>\<open>not x\<close> and \<^verbatim>\<open>x or y\<close> do it.\<close>

fun py_truthy :: "pyval \<Rightarrow> bool" where
  "py_truthy PyNone = False"
| "py_truthy (PyBool b) = b"
| "py_truthy (PyNum r) = (r \<noteq> 0)"
| "py_truthy (PyStr s) = (s \<noteq> [])"
| "py_truthy (PyList xs) = (xs \<noteq> [])"
| "py_truthy (PyDict kvs) = (kvs \<noteq> [])"

text \<open>\<^verbatim>\<open>d.get(key, default)\<close>: only a dict has the method.\<close>

fun py_get :: "pyval \<Rightarrow> string \<Rightarrow> pyval \<Rightarrow> py_error + pyval" where
  "py_get (PyDict kvs) k dflt = Inr (case map_of kvs (KStr k) of None \<Rightarrow> dflt | Some v \<Rightarrow> v)"
| "py_get v k dflt = Inl AttributeError"

text \<open>
  \<^verbatim>\<open>d["key"]\<close> with a string key: a dict without the key raises \<^verbatim>\<open>KeyError\<close>, a list
  or a string wants integer indices and anything else is not subscriptable, which are
  both \<^verbatim>\<open>TypeError\<close>.
\<close>

fun py_getitem :: "pyval \<Rightarrow> string \<Rightarrow> py_error + pyval" where
  "py_getitem (PyDict kvs) k = (case map_of kvs (KStr k) of None \<Rightarrow> Inl KeyError | Some v \<Rightarrow> Inr v)"
| "py_getitem v k = Inl TypeError"

fun key_val :: "hkey \<Rightarrow> pyval" where
  "key_val KNone = PyNone"
| "key_val (KNum r) = PyNum r"
| "key_val (KStr s) = PyStr s"

text \<open>
  What a \<^verbatim>\<open>for\<close> loop runs over: the elements of a list, the keys of a dict, the
  characters of a string (one string per byte here, per code point in Python: the program
  fails on the first of them either way); nothing else is iterable.
\<close>

fun py_iter :: "pyval \<Rightarrow> py_error + pyval list" where
  "py_iter (PyList xs) = Inr xs"
| "py_iter (PyDict kvs) = Inr (map (\<lambda>kv. key_val (fst kv)) kvs)"
| "py_iter (PyStr s) = Inr (map (\<lambda>c. PyStr [c]) s)"
| "py_iter v = Inl TypeError"

text \<open>Hashing, as a dict key or a set element needs it: lists and dicts are unhashable.\<close>

fun py_hash :: "pyval \<Rightarrow> py_error + hkey" where
  "py_hash PyNone = Inr KNone"
| "py_hash (PyBool b) = Inr (KNum (if b then 1 else 0))"
| "py_hash (PyNum r) = Inr (KNum r)"
| "py_hash (PyStr s) = Inr (KStr s)"
| "py_hash v = Inl TypeError"

text \<open>An operand of \<^verbatim>\<open>+\<close> next to a number: a number or a bool, or \<^verbatim>\<open>TypeError\<close>.\<close>

fun py_number :: "pyval \<Rightarrow> py_error + rat" where
  "py_number (PyNum r) = Inr r"
| "py_number (PyBool b) = Inr (if b then 1 else 0)"
| "py_number v = Inl TypeError"

text \<open>\<^verbatim>\<open>sum(vals)\<close> adds the values to 0 from the left.\<close>

fun py_sum :: "pyval list \<Rightarrow> rat \<Rightarrow> py_error + rat" where
  "py_sum [] acc = Inr acc"
| "py_sum (v # vs) acc = (case py_number v of Inl e \<Rightarrow> Inl e | Inr r \<Rightarrow> py_sum vs (acc + r))"

text \<open>
  A number converts to a \<^verbatim>\<open>float\<close> when the double nearest to it is finite: the largest
  double is \<open>2^1024 - 2^971\<close>, and from halfway between it and \<open>2^1024\<close> onwards the
  conversion of an \<^verbatim>\<open>int\<close>, and the true division of two, raise \<^verbatim>\<open>OverflowError\<close>. No
  \<^verbatim>\<open>float\<close> is that large.
\<close>

definition float_overflow :: "rat \<Rightarrow> bool" where
  "float_overflow x = (2 ^ 1024 - 2 ^ 970 \<le> \<bar>x\<bar>)"

text \<open>
  \<^verbatim>\<open>sorted\<close> on what a set of hashable values holds: strings among themselves and numbers
  among themselves are ordered; any other pair of elements has no \<^verbatim>\<open><\<close>, and a sort of
  two or more elements compares across every such divide.
\<close>

fun the_KStr :: "hkey \<Rightarrow> string option" where
  "the_KStr (KStr s) = Some s"
| "the_KStr k = None"

fun the_KNum :: "hkey \<Rightarrow> rat option" where
  "the_KNum (KNum r) = Some r"
| "the_KNum k = None"

definition py_sorted :: "hkey list \<Rightarrow> py_error + hkey list" where
  "py_sorted ks =
     (if length ks \<le> 1 then Inr ks
      else if list_all (\<lambda>k. the_KStr k \<noteq> None) ks then Inr (map KStr (sort (List.map_filter the_KStr ks)))
      else if list_all (\<lambda>k. the_KNum k \<noteq> None) ks then Inr (map KNum (sort (List.map_filter the_KNum ks)))
      else Inl TypeError)"

text \<open>
  \<^verbatim>\<open>round(x, 1)\<close>: to the nearest tenth, a tie to the even one. \<^verbatim>\<open>random.uniform(a, b)\<close>
  is \<^verbatim>\<open>a + (b - a) * random()\<close> with \<^verbatim>\<open>random()\<close> in [0, 1).
\<close>

definition round_half_even :: "rat \<Rightarrow> int" where
  "round_half_even y =
     (let f = \<lfloor>y\<rfloor>; d = y - of_int f in
      if d < 1 / 2 then f else if 1 / 2 < d then f + 1 else if even f then f else f + 1)"

definition round1 :: "rat \<Rightarrow> rat" where
  "round1 x = of_int (round_half_even (x * 10)) / 10"

definition uniform :: "rat \<Rightarrow> rat \<Rightarrow> rat \<Rightarrow> rat" where
  "uniform a b r = a + (b - a) * r"

text \<open>Running a list comprehension whose element can raise: the first error ends it.\<close>

fun collect :: "('a \<Rightarrow> py_error + 'b) \<Rightarrow> 'a list \<Rightarrow> py_error + 'b list" where
  "collect f [] = Inr []"
| "collect f (x # xs) =
     (case f x of
        Inl e \<Rightarrow> Inl e
      | Inr y \<Rightarrow> (case collect f xs of Inl e \<Rightarrow> Inl e | Inr ys \<Rightarrow> Inr (y # ys)))"

subsection \<open>Dates\<close>

text \<open>
  A \<^verbatim>\<open>datetime\<close> is the number of microseconds since 0001-01-01T00:00:00, the first
  instant Python can represent; the last day it can is 9999-12-31, of ordinal 3652059.
  \<open>ord2ymd\<close> is the standard library's conversion of a day's ordinal to year, month
  and day in the proleptic Gregorian calendar.
\<close>

type_synonym datetime = int

definition us_per_day :: int where
  "us_per_day = 86400000000"

definition MAXORDINAL :: int where
  "MAXORDINAL = 3652059"

definition days_before_month :: "nat \<Rightarrow> nat" where
  "days_before_month m = [0, 0, 31, 59, 90, 120, 151, 181, 212, 243, 273, 304, 334] ! m"

definition days_in_month :: "nat \<Rightarrow> nat" where
  "days_in_month m = [0, 31, 28, 31, 30, 31, 30, 31, 31, 30, 31, 30, 31] ! m"

definition ord2ymd :: "nat \<Rightarrow> nat \<times> nat \<times> nat" where
  "ord2ymd ordinal =
     (let n = ordinal - 1;
          n400 = n div 146097; a = n mod 146097;
          n100 = a div 36524; b = a mod 36524;
          n4 = b div 1461; c = b mod 1461;
          n1 = c div 365; d = c mod 365;
          year = n400 * 400 + 1 + n100 * 100 + n4 * 4 + n1
      in if n1 = 4 \<or> n100 = 4 then (year - 1, 12, 31)
         else
           let leapyear = (n1 = 3 \<and> (n4 \<noteq> 24 \<or> n100 = 3));
               month = (d + 50) div 32;
               preceding = days_before_month month + (if 2 < month \<and> leapyear then 1 else 0)
           in if d < preceding
              then (year, month - 1,
                    d - (preceding - (days_in_month (month - 1)
                                      + (if month - 1 = 2 \<and> leapyear then 1 else 0))) + 1)
              else (year, month, d - preceding + 1))"

definition digit :: "nat \<Rightarrow> char" where
  "digit n = ''0123456789'' ! n"

fun digits :: "nat \<Rightarrow> string" where
  "digits n = (if n < 10 then [digit n] else digits (n div 10) @ [digit (n mod 10)])"

text \<open>\<^verbatim>\<open>"%0wd"\<close>: decimal, padded with zeros on the left to at least \<open>w\<close> characters.\<close>

definition zfill :: "nat \<Rightarrow> nat \<Rightarrow> string" where
  "zfill w n = replicate (w - length (digits n)) (CHR ''0'') @ digits n"

definition str_int :: "int \<Rightarrow> string" where
  "str_int i = (if i < 0 then CHR ''-'' # digits (nat (- i)) else digits (nat i))"

definition date_isoformat :: "nat \<Rightarrow> string" where
  "date_isoformat ordinal =
     (case ord2ymd ordinal of
        (y, m, d) \<Rightarrow> zfill 4 y @ ''-'' @ zfill 2 m @ ''-'' @ zfill 2 d)"

definition to_date :: "datetime \<Rightarrow> nat" where
  "to_date dt = nat (dt div us_per_day) + 1"

definition datetime_isoformat :: "datetime \<Rightarrow> string" where
  "datetime_isoformat dt =
     (let us = nat (dt mod us_per_day);
          secs = us div 1000000;
          frac = us mod 1000000
      in date_isoformat (to_date dt) @ ''T'' @ zfill 2 (secs div 3600) @ '':''
         @ zfill 2 (secs div 60 mod 60) @ '':'' @ zfill 2 (secs mod 60)
         @ (if frac = 0 then [] else ''.'' @ zfill 6 frac))"

text \<open>
  \<^verbatim>\<open>dt + timedelta(days=i)\<close> and \<^verbatim>\<open>dt - timedelta(hours=i)\<close>, for \<open>i\<close> from a
  \<^verbatim>\<open>range\<close>: \<^verbatim>\<open>OverflowError\<close> when the \<^verbatim>\<open>timedelta\<close> has more than 999999999 days or the
  result leaves the years 1 to 9999.
\<close>

definition in_range :: "datetime \<Rightarrow> bool" where
  "in_range dt = (0 \<le> dt \<and> dt < MAXORDINAL * us_per_day)"

definition plus_days :: "datetime \<Rightarrow> nat \<Rightarrow> py_error + datetime" where
  "plus_days dt i =
     (if 999999999 < i \<or> \<not> in_range (dt + int i * us_per_day) then Inl OverflowError
      else Inr (dt + int i * us_per_day))"

definition minus_hours :: "datetime \<Rightarrow> nat \<Rightarrow> py_error + datetime" where
  "minus_hours dt i =
     (if 999999999 < i div 24 \<or> \<not> in_range (dt - int i * 3600000000) then Inl OverflowError
      else Inr (dt - int i * 3600000000))"

section \<open>The upstream, the clock and the process state\<close>

text \<open>
  What one outbound request meets: \<^verbatim>\<open>requests.get\<close> raises (no connection, timeout, too
  many redirects, ...), or a response arrives with a status code and a body. What
  \<^verbatim>\<open>resp.json()\<close> does with the body is one of four things: it returns the decoded value
  (\<open>Json\<close>); it raises \<^verbatim>\<open>JSONDecodeError\<close>, because the body is not JSON (\<open>NotJson\<close>);
  it raises \<^verbatim>\<open>RecursionError\<close>, because the body nests arrays or objects deeper than the
  interpreter's recursion limit (\<open>TooDeep\<close>); it raises \<^verbatim>\<open>ValueError\<close>, because the body
  holds an integer of more digits than the interpreter converts, 4300 by default
  (\<open>HugeInteger\<close>). The last two are no \<^verbatim>\<open>RequestException\<close>. The upstream is any function
  of the number of requests the process has sent before and of the URL. Headers and
  timeouts do not reach the model: a timeout is one of the ways \<^verbatim>\<open>requests.get\<close> raises.
\<close>

datatype decoding = Json pyval | NotJson | TooDeep | HugeInteger

datatype http_outcome = Raises | Response nat decoding

type_synonym upstream = "nat \<Rightarrow> string \<Rightarrow> http_outcome"

text \<open>
  \<^verbatim>\<open>total_seconds\<close> of a difference of two readings of the clock is exact here: below
  2^53 microseconds the float division by 10^6 cannot move a value across 3600.
\<close>

definition total_seconds :: "int \<Rightarrow> rat" where
  "total_seconds d = of_int d / 1000000"

definition CACHE_TTL :: rat where
  "CACHE_TTL = 3600"

record cache_entry =
  data :: pyval
  timestamp :: datetime

datatype log_line =
    ApiRequestFailed string request_exception
  | LatestFailed pyval request_exception
  | AirQualityFailed string request_exception
  | CurrentWeatherFailed string string request_exception
  | ForecastFailed string string request_exception

text \<open>
  The mutable state of the process: the global dict \<^verbatim>\<open>CACHE\<close>, and two traces the
  source leaves outside itself, the URLs it has requested and the lines it has logged.
\<close>

record state =
  CACHE :: "string \<rightharpoonup> cache_entry"
  requested :: "string list"
  logged :: "log_line list"

definition log :: "log_line \<Rightarrow> state \<Rightarrow> state" where
  "log l s = s\<lparr>logged := logged s @ [l]\<rparr>"

text \<open>
  The body of every \<^verbatim>\<open>try\<close> of the source starts with the same three calls:
  \<^verbatim>\<open>resp = requests.get(url, ...); resp.raise_for_status(); resp.json()\<close>.
  \<^verbatim>\<open>raise_for_status\<close> raises for the status codes 400 to 599 and for no other.
  \<open>outcome_json\<close> is what the three give for one outcome: the decoded body, or the
  exception that the first of them to fail raises. \<open>http_get_json\<close> runs them against the
  upstream and notes the URL.
\<close>

definition outcome_json :: "http_outcome \<Rightarrow> py_error + pyval" where
  "outcome_json outcome =
     (case outcome of
        Raises \<Rightarrow> Inl (RequestException TransportError)
      | Response status body \<Rightarrow>
          if 400 \<le> status \<and> status < 600 then Inl (RequestException (HTTPError status))
          else (case body of
                  Json d \<Rightarrow> Inr d
                | NotJson \<Rightarrow> Inl (RequestException JSONDecodeError)
                | TooDeep \<Rightarrow> Inl RecursionError
                | HugeInteger \<Rightarrow> Inl ValueError))"

definition http_get_json :: "upstream \<Rightarrow> string \<Rightarrow> state \<Rightarrow> (py_error + pyval) \<times> state" where
  "http_get_json net url s =
     (outcome_json (net (length (requested s)) url), s\<lparr>requested := requested s @ [url]\<rparr>)"

section \<open>fetch_and_cache\<close>

text \<open>
  \<^verbatim>\<open>key in CACHE and (now - CACHE[key]["timestamp"]).total_seconds() < CACHE_TTL\<close>, the
  test that both \<^verbatim>\<open>fetch_and_cache\<close> and \<^verbatim>\<open>air_quality\<close> make on entry.
\<close>

definition fresh :: "datetime \<Rightarrow> cache_entry \<Rightarrow> bool" where
  "fresh now e = (total_seconds (now - timestamp e) < CACHE_TTL)"

definition cache_hit :: "state \<Rightarrow> string \<Rightarrow> datetime \<Rightarrow> bool" where
  "cache_hit s key now = (case CACHE s key of None \<Rightarrow> False | Some e \<Rightarrow> fresh now e)"

text \<open>\<^verbatim>\<open>cache_key or url\<close>: the URL stands in for a key that is \<^verbatim>\<open>None\<close> or empty.\<close>

definition key_or_url :: "string option \<Rightarrow> string \<Rightarrow> string" where
  "key_or_url cache_key url =
     (case cache_key of None \<Rightarrow> url | Some k \<Rightarrow> if k = [] then url else k)"

text \<open>
  The part of \<^verbatim>\<open>fetch_and_cache\<close> under its comment \<^verbatim>\<open># Fetch new data\<close>: the
  \<^verbatim>\<open>try\<close> with its one handler, \<^verbatim>\<open>except requests.RequestException\<close>. The timestamp
  stored is the \<^verbatim>\<open>now\<close> read when the call began. An exception of another class (the
  decoder's \<^verbatim>\<open>RecursionError\<close> or \<^verbatim>\<open>ValueError\<close>) passes through to the caller.
\<close>

definition fetch_new_data ::
  "upstream \<Rightarrow> string \<Rightarrow> pyval \<Rightarrow> string \<Rightarrow> datetime \<Rightarrow> state \<Rightarrow> (py_error + pyval) \<times> state" where
  "fetch_new_data net url fallback_data key now s =
     (case http_get_json net url s of
        (Inr d, s') \<Rightarrow>
          (Inr d, s'\<lparr>CACHE := (CACHE s')(key \<mapsto> \<lparr>data = d, timestamp = now\<rparr>)\<rparr>)
      | (Inl (RequestException e), s') \<Rightarrow> (Inr fallback_data, log (ApiRequestFailed url e) s')
      | (Inl err, s') \<Rightarrow> (Inl err, s'))"

definition fetch_and_cache ::
  "upstream \<Rightarrow> string \<Rightarrow> pyval \<Rightarrow> string option \<Rightarrow> datetime \<Rightarrow> state \<Rightarrow> (py_error + pyval) \<times> state" where
  "fetch_and_cache net url fallback_data cache_key now s =
     (let key = key_or_url cache_key url in
      if cache_hit s key now then (Inr (data (the (CACHE s key))), s)
      else fetch_new_data net url fallback_data key now s)"

section \<open>The endpoints\<close>

text \<open>
  An f-string prints a string as it is; how it prints any other value (\<^verbatim>\<open>str\<close> of a
  float, of a list, ...) is a parameter \<open>fmt\<close> of the endpoints that build a URL from one.
\<close>

definition fstr :: "(pyval \<Rightarrow> string) \<Rightarrow> pyval \<Rightarrow> string" where
  "fstr fmt v = (case v of PyStr s \<Rightarrow> s | _ \<Rightarrow> fmt v)"

text \<open>An endpoint returns a plain value, or a \<^verbatim>\<open>JSONResponse\<close> with a status code.\<close>

datatype response = Value pyval | JSONResponse nat pyval

subsection \<open>/cities\<close>

text \<open>
  The loop of \<^verbatim>\<open>get_cities\<close>. The set \<^verbatim>\<open>cities\<close> is a list of elements without repetitions,
  each under the key it hashes to: adding a value equal to an element leaves the set as it
  was, with the element it had (\<^verbatim>\<open>True\<close> stays \<^verbatim>\<open>True\<close> when \<^verbatim>\<open>1\<close> is added).
  \<^verbatim>\<open>loc["boundary"]\<close> cannot fail where it stands: \<^verbatim>\<open>loc.get("boundary")\<close> was truthy.
\<close>

definition set_add :: "hkey \<Rightarrow> pyval \<Rightarrow> (hkey \<times> pyval) list \<Rightarrow> (hkey \<times> pyval) list" where
  "set_add k v elements = (if map_of elements k = None then (k, v) # elements else elements)"

definition element :: "(hkey \<times> pyval) list \<Rightarrow> hkey \<Rightarrow> pyval" where
  "element elements k = (case map_of elements k of None \<Rightarrow> key_val k | Some v \<Rightarrow> v)"

fun collect_cities :: "pyval list \<Rightarrow> (hkey \<times> pyval) list \<Rightarrow> py_error + (hkey \<times> pyval) list" where
  "collect_cities [] cities = Inr cities"
| "collect_cities (loc # locs) cities =
     (case py_get loc ''boundary'' PyNone of
        Inl e \<Rightarrow> Inl e
      | Inr boundary \<Rightarrow>
          if \<not> py_truthy boundary then collect_cities locs cities
          else (case py_get boundary ''city'' PyNone of
                  Inl e \<Rightarrow> Inl e
                | Inr city \<Rightarrow>
                    if \<not> py_truthy city then collect_cities locs cities
                    else (case py_hash city of
                            Inl e \<Rightarrow> Inl e
                          | Inr c \<Rightarrow> collect_cities locs (set_add c city cities))))"

definition fallback_results :: pyval where
  "fallback_results =
     PyList [PyDict [(KStr ''city'', PyStr ''Tashkent'')],
             PyDict [(KStr ''city'', PyStr ''New York'')],
             PyDict [(KStr ''city'', PyStr ''Delhi'')]]"

text \<open>
  What \<^verbatim>\<open>get_cities\<close> does with the data that \<^verbatim>\<open>fetch_and_cache\<close> gave it. The elements
  of the set are sorted by their keys, which order them as Python orders the elements, and
  it is the elements that are returned.
\<close>

definition cities_of :: "pyval \<Rightarrow> py_error + pyval" where
  "cities_of d =
     (case py_get d ''results'' (PyList []) of
        Inl e \<Rightarrow> Inl e
      | Inr results \<Rightarrow>
          (case py_iter results of
             Inl e \<Rightarrow> Inl e
           | Inr locs \<Rightarrow>
               (case collect_cities locs [] of
                  Inl e \<Rightarrow> Inl e
                | Inr cities \<Rightarrow>
                    (case py_sorted (map fst cities) of
                       Inl e \<Rightarrow> Inl e
                     | Inr sorted_cities \<Rightarrow>
                         if sorted_cities = [] then Inr (PyDict [(KStr ''cities'', fallback_results)])
                         else Inr (PyDict [(KStr ''cities'',
                                 PyList (map (\<lambda>c. PyDict [(KStr ''city'', element cities c)])
                                           sorted_cities))])))))"

definition cities_url :: "string \<Rightarrow> string" where
  "cities_url country = ''https://api.openaq.org/v3/locations?country='' @ country @ ''&limit=1000''"

definition get_cities :: "upstream \<Rightarrow> string \<Rightarrow> datetime \<Rightarrow> state \<Rightarrow> (py_error + pyval) \<times> state" where
  "get_cities net country now s =
     (case fetch_and_cache net (cities_url country) (PyDict [(KStr ''results'', PyList [])])
             (Some (''cities_'' @ country)) now s of
        (Inl e, s') \<Rightarrow> (Inl e, s')
      | (Inr d, s') \<Rightarrow> (cities_of d, s'))"

subsection \<open>/air-quality\<close>

text \<open>
  \<^verbatim>\<open>aggregated_values.setdefault(param, []).append(value)\<close>: a new key goes to the end
  of the dict, a known one keeps its place.
\<close>

definition setdefault_append :: "(hkey \<times> pyval list) list \<Rightarrow> hkey \<Rightarrow> pyval \<Rightarrow> (hkey \<times> pyval list) list" where
  "setdefault_append aggregated_values param v =
     AList.update param (case map_of aggregated_values param of None \<Rightarrow> [v] | Some vs \<Rightarrow> vs @ [v])
       aggregated_values"

text \<open>\<^verbatim>\<open>for m in station.get("measurements", [])\<close>\<close>

fun collect_measurements :: "pyval list \<Rightarrow> (hkey \<times> pyval list) list \<Rightarrow> py_error + (hkey \<times> pyval list) list" where
  "collect_measurements [] aggregated_values = Inr aggregated_values"
| "collect_measurements (m # ms) aggregated_values =
     (case py_getitem m ''parameter'' of
        Inl e \<Rightarrow> Inl e
      | Inr param \<Rightarrow>
          (case py_getitem m ''value'' of
             Inl e \<Rightarrow> Inl e
           | Inr v \<Rightarrow>
               (case py_hash param of
                  Inl e \<Rightarrow> Inl e
                | Inr k \<Rightarrow> collect_measurements ms (setdefault_append aggregated_values k v))))"

text \<open>\<^verbatim>\<open>for station in latest_data\<close>; the pair is \<^verbatim>\<open>(aggregated_values, all_stations)\<close>.\<close>

fun collect_stations ::
  "pyval list \<Rightarrow> (hkey \<times> pyval list) list \<times> pyval list \<Rightarrow> py_error + (hkey \<times> pyval list) list \<times> pyval list" where
  "collect_stations [] acc = Inr acc"
| "collect_stations (station # stations) (aggregated_values, all_stations) =
     (case py_get station ''measurements'' (PyList []) of
        Inl e \<Rightarrow> Inl e
      | Inr measurements \<Rightarrow>
          (case py_iter measurements of
             Inl e \<Rightarrow> Inl e
           | Inr ms \<Rightarrow>
               (case collect_measurements ms aggregated_values of
                  Inl e \<Rightarrow> Inl e
                | Inr aggregated_values' \<Rightarrow>
                    collect_stations stations (aggregated_values', all_stations @ [station]))))"

text \<open>\<^verbatim>\<open>loc.get("name") or loc.get("location")\<close>\<close>

definition location_name :: "pyval \<Rightarrow> py_error + pyval" where
  "location_name loc =
     (case py_get loc ''name'' PyNone of
        Inl e \<Rightarrow> Inl e
      | Inr n \<Rightarrow> if py_truthy n then Inr n else py_get loc ''location'' PyNone)"

definition latest_url :: "(pyval \<Rightarrow> string) \<Rightarrow> pyval \<Rightarrow> string" where
  "latest_url fmt name = ''https://api.openaq.org/v3/latest?location='' @ fstr fmt name @ ''&limit=200''"

text \<open>
  Step 2, \<^verbatim>\<open>for loc in loc_data\<close>, with the inner \<^verbatim>\<open>try\<close>: a \<^verbatim>\<open>RequestException\<close> of the
  three calls is logged and the loop goes on with what it had; any other exception
  leaves the loop (and no handler of \<^verbatim>\<open>air_quality\<close> takes it).
\<close>

fun fetch_latest ::
  "upstream \<Rightarrow> (pyval \<Rightarrow> string) \<Rightarrow> pyval list \<Rightarrow> (hkey \<times> pyval list) list \<times> pyval list \<Rightarrow> state
     \<Rightarrow> (py_error + (hkey \<times> pyval list) list \<times> pyval list) \<times> state" where
  "fetch_latest net fmt [] acc s = (Inr acc, s)"
| "fetch_latest net fmt (loc # locs) acc s =
     (case location_name loc of
        Inl e \<Rightarrow> (Inl e, s)
      | Inr name \<Rightarrow>
          if \<not> py_truthy name then fetch_latest net fmt locs acc s
          else (case http_get_json net (latest_url fmt name) s of
                  (Inl (RequestException e), s') \<Rightarrow>
                    fetch_latest net fmt locs acc (log (LatestFailed name e) s')
                | (Inl err, s') \<Rightarrow> (Inl err, s')
                | (Inr body, s') \<Rightarrow>
                    (case py_get body ''results'' (PyList []) of
                       Inl e \<Rightarrow> (Inl e, s')
                     | Inr latest_data \<Rightarrow>
                         (case py_iter latest_data of
                            Inl e \<Rightarrow> (Inl e, s')
                          | Inr stations \<Rightarrow>
                              (case collect_stations stations acc of
                                 Inl e \<Rightarrow> (Inl e, s')
                               | Inr acc' \<Rightarrow> fetch_latest net fmt locs acc' s')))))"

text \<open>
  Step 3, \<^verbatim>\<open>{param: sum(vals) / len(vals) for param, vals in aggregated_values.items() if vals}\<close>.
  The quotient of a sum beyond the range of a double raises \<^verbatim>\<open>OverflowError\<close>.
\<close>

fun average :: "(hkey \<times> pyval list) list \<Rightarrow> py_error + (hkey \<times> pyval) list" where
  "average [] = Inr []"
| "average ((param, vals) # rest) =
     (if vals = [] then average rest
      else (case py_sum vals 0 of
              Inl e \<Rightarrow> Inl e
            | Inr sum_vals \<Rightarrow>
                if float_overflow (sum_vals / of_nat (length vals)) then Inl OverflowError
                else (case average rest of
                        Inl e \<Rightarrow> Inl e
                      | Inr avg \<Rightarrow> Inr ((param, PyNum (sum_vals / of_nat (length vals))) # avg))))"

definition air_quality_payload :: "(hkey \<times> pyval) list \<Rightarrow> datetime \<Rightarrow> pyval list \<Rightarrow> pyval" where
  "air_quality_payload aggregated utc stations =
     PyDict [(KStr ''aggregated'', PyDict aggregated),
             (KStr ''last_updated'', PyStr (datetime_isoformat utc @ ''Z'')),
             (KStr ''locations'', PyList stations)]"

definition locations_url :: "string \<Rightarrow> string" where
  "locations_url city = ''https://api.openaq.org/v3/locations?city='' @ city @ ''&limit=5''"

text \<open>
  The body of the outer \<^verbatim>\<open>try\<close> of \<^verbatim>\<open>air_quality\<close>. \<open>now\<close> is the local clock as the
  endpoint read it on entry, \<open>utc\<close> is \<^verbatim>\<open>datetime.utcnow()\<close> where the result is stamped.
\<close>

definition air_quality_try ::
  "upstream \<Rightarrow> (pyval \<Rightarrow> string) \<Rightarrow> string \<Rightarrow> datetime \<Rightarrow> datetime \<Rightarrow> state \<Rightarrow> (py_error + pyval) \<times> state" where
  "air_quality_try net fmt city now utc s =
     (case http_get_json net (locations_url city) s of
        (Inl err, s') \<Rightarrow> (Inl err, s')
      | (Inr body, s') \<Rightarrow>
          (case py_get body ''results'' (PyList []) of
             Inl e \<Rightarrow> (Inl e, s')
           | Inr loc_data \<Rightarrow>
               if \<not> py_truthy loc_data
               then (Inl (HTTPException 404 ''No locations found for this city.''), s')
               else (case py_iter loc_data of
                       Inl e \<Rightarrow> (Inl e, s')
                     | Inr locs \<Rightarrow>
                         (case fetch_latest net fmt locs ([], []) s' of
                            (Inl e, s'') \<Rightarrow> (Inl e, s'')
                          | (Inr (aggregated_values, all_stations), s'') \<Rightarrow>
                              (case average aggregated_values of
                                 Inl e \<Rightarrow> (Inl e, s'')
                               | Inr avg \<Rightarrow>
                                   (let result = air_quality_payload avg utc all_stations in
                                    (Inr result,
                                     s''\<lparr>CACHE := (CACHE s'')(''air_quality_'' @ city \<mapsto>
                                            \<lparr>data = result, timestamp = now\<rparr>)\<rparr>)))))))"

definition dummy_aggregated :: "(hkey \<times> pyval) list" where
  "dummy_aggregated = [(KStr ''pm25'', PyNum 20), (KStr ''pm10'', PyNum 35), (KStr ''no2'', PyNum 15)]"

text \<open>The two handlers of the outer \<^verbatim>\<open>try\<close>; no other exception is caught.\<close>

definition air_quality_refreshed ::
  "upstream \<Rightarrow> (pyval \<Rightarrow> string) \<Rightarrow> string \<Rightarrow> datetime \<Rightarrow> datetime \<Rightarrow> state \<Rightarrow> (py_error + response) \<times> state" where
  "air_quality_refreshed net fmt city now utc s =
     (case air_quality_try net fmt city now utc s of
        (Inr result, s') \<Rightarrow> (Inr (Value result), s')
      | (Inl (RequestException e), s') \<Rightarrow>
          (Inr (Value (air_quality_payload dummy_aggregated utc [])), log (AirQualityFailed city e) s')
      | (Inl (HTTPException status_code detail), s') \<Rightarrow>
          (Inr (JSONResponse status_code (PyDict [(KStr ''detail'', PyStr detail)])), s')
      | (Inl err, s') \<Rightarrow> (Inl err, s'))"

definition air_quality ::
  "upstream \<Rightarrow> (pyval \<Rightarrow> string) \<Rightarrow> string \<Rightarrow> datetime \<Rightarrow> datetime \<Rightarrow> state \<Rightarrow> (py_error + response) \<times> state" where
  "air_quality net fmt city now utc s =
     (let cache_key = ''air_quality_'' @ city in
      if cache_hit s cache_key now then (Inr (Value (data (the (CACHE s cache_key)))), s)
      else air_quality_refreshed net fmt city now utc s)"

subsection \<open>/measurements\<close>

text \<open>
  One element of the fallback list, \<^verbatim>\<open>{"date": {"utc": ...}, "value": 10 + i % 5}\<close>;
  \<open>utc i\<close> is what \<^verbatim>\<open>datetime.utcnow()\<close> reads when element \<open>i\<close> is built.
\<close>

definition fallback_measurement :: "(nat \<Rightarrow> datetime) \<Rightarrow> nat \<Rightarrow> py_error + pyval" where
  "fallback_measurement utc i =
     (case minus_hours (utc i) i of
        Inl e \<Rightarrow> Inl e
      | Inr dt \<Rightarrow>
          Inr (PyDict [(KStr ''date'', PyDict [(KStr ''utc'', PyStr (datetime_isoformat dt @ ''Z''))]),
                       (KStr ''value'', PyNum (of_nat (10 + i mod 5)))]))"

definition measurements_url :: "string \<Rightarrow> string \<Rightarrow> int \<Rightarrow> string" where
  "measurements_url location parameter limit =
     ''https://api.openaq.org/v3/measurements?location='' @ location @ ''&parameter='' @ parameter
       @ ''&limit='' @ str_int limit @ ''&sort=desc''"

text \<open>The fallback is built before the fetch, whether it will be needed or not.\<close>

definition measurements ::
  "upstream \<Rightarrow> string \<Rightarrow> string \<Rightarrow> int \<Rightarrow> (nat \<Rightarrow> datetime) \<Rightarrow> datetime \<Rightarrow> state \<Rightarrow> (py_error + pyval) \<times> state" where
  "measurements net location parameter limit utc now s =
     (case collect (fallback_measurement utc) [0..<nat limit] of
        Inl e \<Rightarrow> (Inl e, s)
      | Inr results \<Rightarrow>
          fetch_and_cache net (measurements_url location parameter limit)
            (PyDict [(KStr ''results'', PyList results)])
            (Some (''measurements_'' @ location @ ''_'' @ parameter)) now s)"

subsection \<open>/weather\<close>

definition OPENMETEO_BASE :: string where
  "OPENMETEO_BASE = ''https://api.open-meteo.com/v1/forecast''"

definition current_weather_url :: "(pyval \<Rightarrow> string) \<Rightarrow> rat \<Rightarrow> rat \<Rightarrow> string" where
  "current_weather_url fmt lat lon =
     OPENMETEO_BASE @ ''?latitude='' @ fstr fmt (PyNum lat) @ ''&longitude='' @ fstr fmt (PyNum lon)
       @ ''&current_weather=true&timezone=auto''"

text \<open>
  \<open>exc_text\<close> is how the caught exception prints inside the detail of the
  \<^verbatim>\<open>HTTPException\<close> that \<^verbatim>\<open>current_weather\<close> raises.
\<close>

definition current_weather ::
  "upstream \<Rightarrow> (pyval \<Rightarrow> string) \<Rightarrow> (request_exception \<Rightarrow> string) \<Rightarrow> rat \<Rightarrow> rat \<Rightarrow> state
     \<Rightarrow> (py_error + pyval) \<times> state" where
  "current_weather net fmt exc_text lat lon s =
     (case http_get_json net (current_weather_url fmt lat lon) s of
        (Inr d, s') \<Rightarrow>
          (case py_get d ''current_weather'' PyNone of
             Inl e \<Rightarrow> (Inl e, s')
           | Inr cw \<Rightarrow>
               (Inr (PyDict [(KStr ''source'', PyStr ''open-meteo''), (KStr ''current_weather'', cw)]), s'))
      | (Inl (RequestException e), s') \<Rightarrow>
          (Inl (HTTPException 502 (''Open-Meteo request failed: '' @ exc_text e)),
           log (CurrentWeatherFailed (fstr fmt (PyNum lat)) (fstr fmt (PyNum lon)) e) s')
      | (Inl err, s') \<Rightarrow> (Inl err, s'))"

subsection \<open>/forecast\<close>

definition forecast_url :: "(pyval \<Rightarrow> string) \<Rightarrow> rat \<Rightarrow> rat \<Rightarrow> int \<Rightarrow> string" where
  "forecast_url fmt lat lon days =
     OPENMETEO_BASE @ ''?latitude='' @ fstr fmt (PyNum lat) @ ''&longitude='' @ fstr fmt (PyNum lon)
       @ ''&daily=temperature_2m_max,temperature_2m_min,precipitation_sum&timezone=auto&forecast_days=''
       @ str_int days"

text \<open>
  The inner \<^verbatim>\<open>try\<close> of the fallback, whose handler is \<^verbatim>\<open>except Exception\<close>: whatever
  goes wrong, the temperature is 20.
\<close>

definition current_temperature :: "upstream \<Rightarrow> string \<Rightarrow> state \<Rightarrow> pyval \<times> state" where
  "current_temperature net cw_url s =
     (case http_get_json net cw_url s of
        (Inl err, s') \<Rightarrow> (PyNum 20, s')
      | (Inr d, s') \<Rightarrow>
          (case py_get d ''current_weather'' (PyDict []) of
             Inl e \<Rightarrow> (PyNum 20, s')
           | Inr cw \<Rightarrow>
               (case py_get cw ''temperature'' (PyNum 20) of
                  Inl e \<Rightarrow> (PyNum 20, s')
                | Inr temp \<Rightarrow> (temp, s'))))"

text \<open>
  The four list comprehensions, in the order of the source. \<open>rnd k\<close> is the value of
  the \<open>k\<close>-th call of \<^verbatim>\<open>random()\<close> that the endpoint makes: the maxima draw first, then
  the minima, then the precipitation. \<^verbatim>\<open>temp + 5\<close> is an \<^verbatim>\<open>int\<close> when \<^verbatim>\<open>temp\<close> is one, and
  adding the \<^verbatim>\<open>float\<close> that \<^verbatim>\<open>random.uniform\<close> returns converts it: \<^verbatim>\<open>OverflowError\<close> when
  it is beyond the range of a double.
\<close>

definition forecast_date :: "datetime \<Rightarrow> nat \<Rightarrow> py_error + pyval" where
  "forecast_date base i =
     (case plus_days base i of Inl e \<Rightarrow> Inl e | Inr dt \<Rightarrow> Inr (PyStr (date_isoformat (to_date dt))))"

definition perturbed :: "pyval \<Rightarrow> rat \<Rightarrow> rat \<Rightarrow> py_error + pyval" where
  "perturbed temp shift r =
     (case py_number temp of
        Inl e \<Rightarrow> Inl e
      | Inr t \<Rightarrow>
          if float_overflow (t + shift) then Inl OverflowError
          else Inr (PyNum (round1 (t + shift + uniform (- 3) 3 r))))"

definition naive_forecast :: "pyval \<Rightarrow> datetime \<Rightarrow> (nat \<Rightarrow> rat) \<Rightarrow> nat \<Rightarrow> py_error + pyval" where
  "naive_forecast temp base rnd days =
     (case collect (forecast_date base) [0..<days] of
        Inl e \<Rightarrow> Inl e
      | Inr dates \<Rightarrow>
          (case collect (\<lambda>i. perturbed temp 5 (rnd i)) [0..<days] of
             Inl e \<Rightarrow> Inl e
           | Inr tmax \<Rightarrow>
               (case collect (\<lambda>i. perturbed temp (- 2) (rnd (days + i))) [0..<days] of
                  Inl e \<Rightarrow> Inl e
                | Inr tmin \<Rightarrow>
                    (let precip = map (\<lambda>i. PyNum (round1 (max 0 (uniform 0 5 (rnd (2 * days + i))))))
                                    [0..<days]
                     in Inr (PyDict [(KStr ''source'', PyStr ''fallback''),
                                     (KStr ''daily'',
                                      PyDict [(KStr ''time'', PyList dates),
                                              (KStr ''temperature_2m_max'', PyList tmax),
                                              (KStr ''temperature_2m_min'', PyList tmin),
                                              (KStr ''precipitation_sum'', PyList precip)])])))))"

definition forecast ::
  "upstream \<Rightarrow> (pyval \<Rightarrow> string) \<Rightarrow> (nat \<Rightarrow> rat) \<Rightarrow> rat \<Rightarrow> rat \<Rightarrow> int \<Rightarrow> datetime \<Rightarrow> state
     \<Rightarrow> (py_error + pyval) \<times> state" where
  "forecast net fmt rnd lat lon days utc s =
     (case http_get_json net (forecast_url fmt lat lon days) s of
        (Inr d, s') \<Rightarrow>
          (case py_get d ''daily'' (PyDict []) of
             Inl e \<Rightarrow> (Inl e, s')
           | Inr daily \<Rightarrow>
               (Inr (PyDict [(KStr ''source'', PyStr ''open-meteo''), (KStr ''daily'', daily)]), s'))
      | (Inl (RequestException e), s') \<Rightarrow>
          (case current_temperature net (current_weather_url fmt lat lon)
                  (log (ForecastFailed (fstr fmt (PyNum lat)) (fstr fmt (PyNum lon)) e) s') of
             (temp, s'') \<Rightarrow> (naive_forecast temp utc rnd (nat days), s''))
      | (Inl err, s') \<Rightarrow> (Inl err, s'))"

section \<open>What the station lookup gave\<close>

text \<open>
  The first request of \<^verbatim>\<open>air_quality\<close> asks for the stations of the city. Sent by the
  process in state \<open>s\<close>, it fails (one of the three calls raises a \<^verbatim>\<open>RequestException\<close>),
  or it succeeds with no station (\<^verbatim>\<open>"results"\<close> is missing, an empty list, or falsy in
  another way), or it succeeds with stations to visit, or its body cannot be read: the
  decoder raises another exception on it, or it has another shape than the code reads.
\<close>

datatype lookup =
    LookupFailed request_exception
  | NoStations
  | Stations "pyval list"
  | Unreadable py_error

definition station_lookup :: "upstream \<Rightarrow> string \<Rightarrow> state \<Rightarrow> lookup" where
  "station_lookup net city s =
     (case outcome_json (net (length (requested s)) (locations_url city)) of
        Inl (RequestException e) \<Rightarrow> LookupFailed e
      | Inl err \<Rightarrow> Unreadable err
      | Inr body \<Rightarrow>
          (case py_get body ''results'' (PyList []) of
             Inl e \<Rightarrow> Unreadable e
           | Inr loc_data \<Rightarrow>
               if \<not> py_truthy loc_data then NoStations
               else (case py_iter loc_data of Inl e \<Rightarrow> Unreadable e | Inr locs \<Rightarrow> Stations locs)))"

text \<open>
  The exceptions that no handler of \<^verbatim>\<open>air_quality\<close> takes: every one that is neither a
  \<^verbatim>\<open>RequestException\<close> nor an \<^verbatim>\<open>HTTPException\<close>.
\<close>

fun unhandled :: "py_error \<Rightarrow> bool" where
  "unhandled (RequestException e) = False"
| "unhandled (HTTPException status_code detail) = False"
| "unhandled e = True"

definition not_found :: response where
  "not_found = JSONResponse 404 (PyDict [(KStr ''detail'', PyStr ''No locations found for this city.'')])"

definition dummy_payload :: "datetime \<Rightarrow> pyval" where
  "dummy_payload utc =
     PyDict [(KStr ''aggregated'',
              PyDict [(KStr ''pm25'', PyNum 20), (KStr ''pm10'', PyNum 35), (KStr ''no2'', PyNum 15)]),
             (KStr ''last_updated'', PyStr (datetime_isoformat utc @ ''Z'')),
             (KStr ''locations'', PyList [])]"

section \<open>The stations that answered and what they report\<close>






















section \<open>The base temperature of the fallback forecast\<close>


section \<open>The city names of a list of locations\<close>

text \<open>
  The name that a location carries in \<^verbatim>\<open>loc["boundary"]["city"]\<close>, when it carries one that
  is a string and not empty. A location is readable when it is a dict whose
  \<^verbatim>\<open>"boundary"\<close> is missing, falsy or a dict, the \<^verbatim>\<open>"city"\<close> of which is missing, falsy
  or a string.
\<close>

fun city_name :: "pyval \<Rightarrow> string option" where
  "city_name (PyDict kvs) =
     (case map_of kvs (KStr ''boundary'') of
        Some (PyDict b) \<Rightarrow>
          (case map_of b (KStr ''city'') of
             Some (PyStr c) \<Rightarrow> if c = [] then None else Some c
           | _ \<Rightarrow> None)
      | _ \<Rightarrow> None)"
| "city_name v = None"

fun readable_location :: "pyval \<Rightarrow> bool" where
  "readable_location (PyDict kvs) =
     (case map_of kvs (KStr ''boundary'') of
        None \<Rightarrow> True
      | Some (PyDict b) \<Rightarrow>
          (case map_of b (KStr ''city'') of
             None \<Rightarrow> True
           | Some (PyStr c) \<Rightarrow> True
           | Some v \<Rightarrow> \<not> py_truthy v)
      | Some v \<Rightarrow> \<not> py_truthy v)"
| "readable_location v = False"

definition city_names :: "pyval list \<Rightarrow> string list" where
  "city_names locs = List.map_filter city_name locs"

definition cities_payload :: "string list \<Rightarrow> pyval" where
  "cities_payload cs = PyDict [(KStr ''cities'', PyList (map (\<lambda>c. PyDict [(KStr ''city'', PyStr c)]) cs))]"

section \<open>Fixtures\<close>

text \<open>
  The process starts with an empty cache. A scripted upstream answers the \<open>k\<close>-th request
  of the process with the \<open>k\<close>-th outcome of a list, whatever the URL, and is unreachable
  once the list is used up.
\<close>

definition start :: state where
  "start = \<lparr>CACHE = Map.empty, requested = [], logged = []\<rparr>"

definition scripted :: "http_outcome list \<Rightarrow> upstream" where
  "scripted outcomes k url = (if k < length outcomes then outcomes ! k else Raises)"

definition ok :: "pyval \<Rightarrow> http_outcome" where
  "ok body = Response 200 (Json body)"

text \<open>The bodies that the air-quality registry sends, as the endpoints read them.\<close>

definition results :: "pyval list \<Rightarrow> pyval" where
  "results xs = PyDict [(KStr ''results'', PyList xs)]"




text \<open>
  Stand-ins for how an f-string prints a value that is not a string, and for how it prints
  a caught exception.
\<close>

definition unprinted :: "pyval \<Rightarrow> string" where
  "unprinted v = ''?''"

definition cause :: "request_exception \<Rightarrow> string" where
  "cause e = ''cause''"

section \<open>The cache and the fetch\<close>

lemma outcome_json_error:
  "outcome_json outcome = Inl e \<Longrightarrow> (\<exists>x. e = RequestException x) \<or> e = RecursionError \<or> e = ValueError"
  by (auto simp: outcome_json_def split: http_outcome.splits if_splits decoding.splits)

lemma outcome_json_unhandled:
  "outcome_json outcome = Inl e \<Longrightarrow> (\<exists>x. e = RequestException x) \<or> unhandled e"
  by (auto dest: outcome_json_error)

lemma fetch_new_data_fails:
  "outcome_json (net (length (requested s)) url) = Inl (RequestException err) \<Longrightarrow>
   fetch_new_data net url fb key now s =
     (Inr fb, log (ApiRequestFailed url err) (s\<lparr>requested := requested s @ [url]\<rparr>))"
  by (simp add: fetch_new_data_def http_get_json_def)

text \<open>An exception of the decoder that is no \<^verbatim>\<open>RequestException\<close> reaches the caller.\<close>

lemma fetch_new_data_raises:
  "outcome_json (net (length (requested s)) url) = Inl e \<Longrightarrow> unhandled e \<Longrightarrow>
   fetch_new_data net url fb key now s = (Inl e, s\<lparr>requested := requested s @ [url]\<rparr>)"
  by (cases e) (simp_all add: fetch_new_data_def http_get_json_def)

lemma fetch_new_data_requested:
  "requested (snd (fetch_new_data net url fb key now s)) = requested s @ [url]"
  by (simp add: fetch_new_data_def http_get_json_def log_def split: sum.splits py_error.splits)

lemma fetch_new_data_succeeds:
  "outcome_json (net (length (requested s)) url) = Inr d \<Longrightarrow>
   fetch_new_data net url fb key now s =
     (Inr d, s\<lparr>requested := requested s @ [url],
               CACHE := (CACHE s)(key \<mapsto> \<lparr>data = d, timestamp = now\<rparr>)\<rparr>)"
  by (simp add: fetch_new_data_def http_get_json_def)

text \<open>An entry that is missing or stale stays so as the clock moves on.\<close>

lemma stale_stays_stale:
  "\<not> cache_hit s key now \<Longrightarrow> now \<le> now' \<Longrightarrow> \<not> cache_hit s key now'"
  by (auto simp: cache_hit_def fresh_def total_seconds_def divide_right_mono split: option.splits)

text \<open>
  C5. Let the cache hold an entry under the key of a fetch. If the clock reads strictly less
  than 3600 seconds past the entry's timestamp, the fetch returns the stored payload and
  leaves the state as it was: no request goes out. If it reads 3600 seconds or more, the
  fetch sends exactly one request, and what it returns is the body of that request's
  answer or, when the request failed, the fallback (or what it raises is the exception of
  the decoder that is no \<^verbatim>\<open>RequestException\<close>): the stale payload is not served. The
  timestamp of an entry is the clock as the storing call read it on entry
  (\<open>fetch_new_data_succeeds\<close>).
\<close>

theorem fetch_and_cache_ttl:
  assumes "CACHE s (key_or_url cache_key url) = Some e"
  shows "(total_seconds (now - timestamp e) < 3600 \<longrightarrow>
            fetch_and_cache net url fb cache_key now s = (Inr (data e), s))
       \<and> (3600 \<le> total_seconds (now - timestamp e) \<longrightarrow>
            requested (snd (fetch_and_cache net url fb cache_key now s)) = requested s @ [url]
          \<and> fst (fetch_and_cache net url fb cache_key now s) =
              (case outcome_json (net (length (requested s)) url) of
                 Inr d \<Rightarrow> Inr d
               | Inl (RequestException err) \<Rightarrow> Inr fb
               | Inl err \<Rightarrow> Inl err))"
proof (intro conjI impI)
  assume "total_seconds (now - timestamp e) < 3600"
  with assms show "fetch_and_cache net url fb cache_key now s = (Inr (data e), s)"
    by (simp add: fetch_and_cache_def cache_hit_def fresh_def CACHE_TTL_def)
next
  assume stale: "3600 \<le> total_seconds (now - timestamp e)"
  with assms have miss: "\<not> cache_hit s (key_or_url cache_key url) now"
    by (simp add: cache_hit_def fresh_def CACHE_TTL_def)
  show "requested (snd (fetch_and_cache net url fb cache_key now s)) = requested s @ [url]"
    using miss by (simp add: fetch_and_cache_def fetch_new_data_requested)
  show "fst (fetch_and_cache net url fb cache_key now s) =
          (case outcome_json (net (length (requested s)) url) of
             Inr d \<Rightarrow> Inr d
           | Inl (RequestException err) \<Rightarrow> Inr fb
           | Inl err \<Rightarrow> Inl err)"
    using miss
    by (simp add: fetch_and_cache_def fetch_new_data_def http_get_json_def
          split: sum.splits py_error.splits)
qed

text \<open>
  An entry stored at 0: one microsecond before the hour the fetch answers from the cache,
  on the hour it asks the upstream.
\<close>

theorem fetch_and_cache_ttl_witness:
  "fetch_and_cache (scripted [ok (PyStr ''new'')]) ''u'' PyNone (Some ''countries'') 3599999999
      (start\<lparr>CACHE := [''countries'' \<mapsto> \<lparr>data = PyStr ''stored'', timestamp = 0\<rparr>]\<rparr>)
     = (Inr (PyStr ''stored''), start\<lparr>CACHE := [''countries'' \<mapsto> \<lparr>data = PyStr ''stored'', timestamp = 0\<rparr>]\<rparr>)
   \<and> requested (snd (fetch_and_cache (scripted [ok (PyStr ''new'')]) ''u'' PyNone (Some ''countries'') 3600000000
      (start\<lparr>CACHE := [''countries'' \<mapsto> \<lparr>data = PyStr ''stored'', timestamp = 0\<rparr>]\<rparr>))) = [''u'']
   \<and> fst (fetch_and_cache (scripted [ok (PyStr ''new'')]) ''u'' PyNone (Some ''countries'') 3600000000
      (start\<lparr>CACHE := [''countries'' \<mapsto> \<lparr>data = PyStr ''stored'', timestamp = 0\<rparr>]\<rparr>)) = Inr (PyStr ''new'')"
  using fetch_and_cache_ttl [of "start\<lparr>CACHE := [''countries'' \<mapsto> \<lparr>data = PyStr ''stored'', timestamp = 0\<rparr>]\<rparr>"
          "Some ''countries''" "''u''" "\<lparr>data = PyStr ''stored'', timestamp = 0\<rparr>" 3599999999
          "scripted [ok (PyStr ''new'')]" PyNone]
        fetch_and_cache_ttl [of "start\<lparr>CACHE := [''countries'' \<mapsto> \<lparr>data = PyStr ''stored'', timestamp = 0\<rparr>]\<rparr>"
          "Some ''countries''" "''u''" "\<lparr>data = PyStr ''stored'', timestamp = 0\<rparr>" 3600000000
          "scripted [ok (PyStr ''new'')]" PyNone]
  by (simp add: key_or_url_def start_def total_seconds_def scripted_def ok_def outcome_json_def)

text \<open>
  C1, as the code has it. A fetch that reaches the upstream (no fresh entry under its key)
  and fails there with a \<^verbatim>\<open>RequestException\<close> returns the fallback verbatim and does not
  raise; the cache is as it was, so the next fetch of the same request, at the same or a
  later reading of the clock, sends a request again. A \<^verbatim>\<open>RequestException\<close> is what
  \<^verbatim>\<open>requests.get\<close> itself raises (network error, timeout), what \<^verbatim>\<open>raise_for_status\<close>
  raises on a status from 400 to 599, and the \<^verbatim>\<open>JSONDecodeError\<close> that \<^verbatim>\<open>json\<close> raises on
  a body that is not JSON. (The handler takes no other exception: \<open>fetch_new_data_raises\<close>.)
\<close>

theorem fetch_and_cache_fallback:
  assumes miss: "\<not> cache_hit s (key_or_url cache_key url) now"
      and fails: "outcome_json (net (length (requested s)) url) = Inl (RequestException err)"
      and later: "now \<le> now'"
  shows "fst (fetch_and_cache net url fb cache_key now s) = Inr fb
       \<and> CACHE (snd (fetch_and_cache net url fb cache_key now s)) = CACHE s
       \<and> requested (snd (fetch_and_cache net url fb cache_key now s)) = requested s @ [url]
       \<and> requested (snd (fetch_and_cache net url fb' cache_key now'
                            (snd (fetch_and_cache net url fb cache_key now s))))
           = requested s @ [url, url]"
proof -
  let ?s' = "log (ApiRequestFailed url err) (s\<lparr>requested := requested s @ [url]\<rparr>)"
  have first: "fetch_and_cache net url fb cache_key now s = (Inr fb, ?s')"
    using miss fails by (simp add: fetch_and_cache_def fetch_new_data_fails)
  have same: "CACHE ?s' = CACHE s" and req: "requested ?s' = requested s @ [url]"
    by (simp_all add: log_def)
  from miss later have "\<not> cache_hit s (key_or_url cache_key url) now'"
    by (rule stale_stays_stale)
  then have miss': "\<not> cache_hit ?s' (key_or_url cache_key url) now'"
    by (simp add: cache_hit_def log_def)
  have "requested (snd (fetch_and_cache net url fb' cache_key now' ?s')) = requested ?s' @ [url]"
    using miss' by (simp add: fetch_and_cache_def fetch_new_data_requested)
  with first same req show ?thesis by simp
qed

theorem fetch_and_cache_fallback_witness:
  "fst (fetch_and_cache (scripted [Response 503 NotJson, Raises]) ''u'' (PyStr ''fallback'') None 10 start)
     = Inr (PyStr ''fallback'')
   \<and> CACHE (snd (fetch_and_cache (scripted [Response 503 NotJson, Raises]) ''u'' (PyStr ''fallback'') None 10 start))
     = CACHE start
   \<and> requested (snd (fetch_and_cache (scripted [Response 503 NotJson, Raises]) ''u'' (PyStr ''fallback'') None 10 start))
     = [''u'']
   \<and> requested (snd (fetch_and_cache (scripted [Response 503 NotJson, Raises]) ''u'' (PyStr ''fallback'') None 20
        (snd (fetch_and_cache (scripted [Response 503 NotJson, Raises]) ''u'' (PyStr ''fallback'') None 10 start))))
     = [''u'', ''u'']"
  using fetch_and_cache_fallback [of start None "''u''" 10 "scripted [Response 503 NotJson, Raises]"
          "HTTPError 503" 20 "PyStr ''fallback''" "PyStr ''fallback''"]
  by (simp add: key_or_url_def start_def cache_hit_def scripted_def outcome_json_def)

text \<open>
  A status outside 200 to 299 is not always a failure: \<^verbatim>\<open>raise_for_status\<close> lets 300
  pass, and with a body that decodes the answer is returned in place of the fallback and
  stored in the cache.
\<close>

theorem fetch_and_cache_status_300_counterexample:
  "fst (fetch_and_cache (scripted [Response 300 (Json (PyDict []))]) ''u'' (PyStr ''fallback'') None 10 start)
     = Inr (PyDict [])
   \<and> CACHE (snd (fetch_and_cache (scripted [Response 300 (Json (PyDict []))]) ''u'' (PyStr ''fallback'') None 10 start)) ''u''
     = Some \<lparr>data = PyDict [], timestamp = 10\<rparr>
   \<and> CACHE start ''u'' = None"
  by (simp add: fetch_and_cache_def fetch_new_data_def http_get_json_def outcome_json_def
        key_or_url_def cache_hit_def start_def scripted_def)

section \<open>The aggregation of a city\<close>

subsection \<open>Which exceptions can leave it\<close>

lemma py_get_error: "py_get v k d = Inl e \<Longrightarrow> e = AttributeError"
  by (cases v) auto

lemma py_iter_error: "py_iter v = Inl e \<Longrightarrow> e = TypeError"
  by (cases v) auto

lemma py_getitem_error: "py_getitem v k = Inl e \<Longrightarrow> unhandled e"
  by (cases v) (auto split: option.splits)

lemma py_hash_error: "py_hash v = Inl e \<Longrightarrow> e = TypeError"
  by (cases v) auto

lemma py_number_error: "py_number v = Inl e \<Longrightarrow> e = TypeError"
  by (cases v) auto

lemma py_sum_error: "py_sum vs acc = Inl e \<Longrightarrow> e = TypeError"
  by (induction vs arbitrary: acc) (auto split: sum.splits dest: py_number_error)

lemma location_name_error: "location_name loc = Inl e \<Longrightarrow> e = AttributeError"
  by (auto simp: location_name_def split: sum.splits if_splits dest: py_get_error)

lemma collect_measurements_error: "collect_measurements ms acc = Inl e \<Longrightarrow> unhandled e"
  by (induction ms arbitrary: acc)
     (auto split: sum.splits dest: py_getitem_error py_hash_error)

lemma collect_stations_error: "collect_stations sts acc = Inl e \<Longrightarrow> unhandled e"
  by (induction sts acc rule: collect_stations.induct)
     (auto split: sum.splits dest: py_get_error py_iter_error collect_measurements_error)

lemma average_error: "average acc = Inl e \<Longrightarrow> e = TypeError \<or> e = OverflowError"
  by (induction acc rule: average.induct) (auto split: sum.splits if_splits dest: py_sum_error)

subsection \<open>The loop over the stations, one station at a time\<close>

lemma fetch_latest_Cons:
  "fetch_latest net fmt (loc # locs) acc s =
     (case location_name loc of
        Inl e \<Rightarrow> (Inl e, s)
      | Inr name \<Rightarrow>
          if \<not> py_truthy name then fetch_latest net fmt locs acc s
          else (case outcome_json (net (length (requested s)) (latest_url fmt name)) of
                  Inl (RequestException e) \<Rightarrow>
                    fetch_latest net fmt locs acc
                      (log (LatestFailed name e) (s\<lparr>requested := requested s @ [latest_url fmt name]\<rparr>))
                | Inl err \<Rightarrow> (Inl err, s\<lparr>requested := requested s @ [latest_url fmt name]\<rparr>)
                | Inr body \<Rightarrow>
                    (case py_get body ''results'' (PyList []) of
                       Inl e \<Rightarrow> (Inl e, s\<lparr>requested := requested s @ [latest_url fmt name]\<rparr>)
                     | Inr latest_data \<Rightarrow>
                         (case py_iter latest_data of
                            Inl e \<Rightarrow> (Inl e, s\<lparr>requested := requested s @ [latest_url fmt name]\<rparr>)
                          | Inr stations \<Rightarrow>
                              (case collect_stations stations acc of
                                 Inl e \<Rightarrow> (Inl e, s\<lparr>requested := requested s @ [latest_url fmt name]\<rparr>)
                               | Inr acc' \<Rightarrow>
                                   fetch_latest net fmt locs acc'
                                     (s\<lparr>requested := requested s @ [latest_url fmt name]\<rparr>))))))"
  by (simp add: http_get_json_def split: sum.splits py_error.splits)

text \<open>
  The loop over the stations never ends in a \<^verbatim>\<open>RequestException\<close>: what leaves it is an
  exception of the shape of the data, or one of the decoder that is no
  \<^verbatim>\<open>RequestException\<close>.
\<close>

lemma fetch_latest_error:
  "fst (fetch_latest net fmt locs acc s) = Inl e \<Longrightarrow> unhandled e"
proof (induction locs arbitrary: acc s)
  case Nil
  then show ?case by simp
next
  case (Cons loc locs)
  show ?case
  proof (cases "location_name loc")
    case (Inl x)
    with Cons.prems show ?thesis by (auto simp: fetch_latest_Cons dest: location_name_error)
  next
    case (Inr name)
    show ?thesis
    proof (cases "py_truthy name")
      case False
      with Inr Cons.prems Cons.IH show ?thesis by (simp add: fetch_latest_Cons)
    next
      case True
      show ?thesis
      proof (cases "outcome_json (net (length (requested s)) (latest_url fmt name))")
        case (Inl x)
        from outcome_json_unhandled [OF Inl] show ?thesis
        proof
          assume "\<exists>r. x = RequestException r"
          then obtain r where "x = RequestException r" by blast
          with Inl Inr True Cons.prems
          have "fst (fetch_latest net fmt locs acc
                  (log (LatestFailed name r) (s\<lparr>requested := requested s @ [latest_url fmt name]\<rparr>)))
                = Inl e"
            by (simp add: fetch_latest_Cons del: fetch_latest.simps(2))
          then show ?thesis by (rule Cons.IH)
        next
          assume u: "unhandled x"
          with Inl Inr True Cons.prems have "e = x"
            by (cases x) (simp_all add: fetch_latest_Cons del: fetch_latest.simps(2))
          with u show ?thesis by simp
        qed
      next
        case body: (Inr body)
        with Inr True Cons.prems Cons.IH show ?thesis
          by (auto simp: fetch_latest_Cons simp del: fetch_latest.simps(2) split: sum.splits
                dest: py_get_error py_iter_error collect_stations_error)
      qed
    qed
  qed
qed

lemma fetch_latest_CACHE: "CACHE (snd (fetch_latest net fmt locs acc s)) = CACHE s"
proof (induction locs arbitrary: acc s)
  case Nil
  show ?case by simp
next
  case (Cons loc locs)
  show ?case
    unfolding fetch_latest_Cons
    by (simp add: Cons.IH log_def split: sum.splits py_error.splits)
qed

lemma fetch_latest_requested:
  "\<exists>rest. requested (snd (fetch_latest net fmt locs acc s)) = requested s @ rest"
proof (induction locs arbitrary: acc s)
  case Nil
  show ?case by simp
next
  case (Cons loc locs)
  have step: "\<exists>rest. requested (snd (fetch_latest net fmt locs a t)) = requested s @ rest"
    if "requested t = requested s @ [u]" for a t u
    using Cons.IH [of a t] that by auto
  show ?case
    unfolding fetch_latest_Cons
    by (auto simp: log_def Cons.IH split: sum.splits py_error.splits intro!: step)
qed

subsection \<open>The body of the outer try, by what the lookup gave\<close>

lemma air_quality_try_failed:
  "station_lookup net city s = LookupFailed e \<Longrightarrow>
   air_quality_try net fmt city now utc s =
     (Inl (RequestException e), s\<lparr>requested := requested s @ [locations_url city]\<rparr>)"
  by (auto simp: air_quality_try_def station_lookup_def http_get_json_def
        split: sum.splits if_splits py_error.splits)

lemma air_quality_try_no_stations:
  "station_lookup net city s = NoStations \<Longrightarrow>
   air_quality_try net fmt city now utc s =
     (Inl (HTTPException 404 ''No locations found for this city.''),
      s\<lparr>requested := requested s @ [locations_url city]\<rparr>)"
  by (auto simp: air_quality_try_def station_lookup_def http_get_json_def
        split: sum.splits if_splits py_error.splits)

lemma air_quality_try_unreadable:
  "station_lookup net city s = Unreadable e \<Longrightarrow>
   air_quality_try net fmt city now utc s =
     (Inl e, s\<lparr>requested := requested s @ [locations_url city]\<rparr>) \<and> unhandled e"
  by (auto simp: air_quality_try_def station_lookup_def http_get_json_def
        split: sum.splits if_splits py_error.splits
        dest: py_get_error py_iter_error outcome_json_error)

lemma air_quality_try_stations:
  "station_lookup net city s = Stations locs \<Longrightarrow>
   air_quality_try net fmt city now utc s =
     (case fetch_latest net fmt locs ([], []) (s\<lparr>requested := requested s @ [locations_url city]\<rparr>) of
        (Inl e, s') \<Rightarrow> (Inl e, s')
      | (Inr (aggregated_values, all_stations), s') \<Rightarrow>
          (case average aggregated_values of
             Inl e \<Rightarrow> (Inl e, s')
           | Inr avg \<Rightarrow>
               (Inr (air_quality_payload avg utc all_stations),
                s'\<lparr>CACHE := (CACHE s')(''air_quality_'' @ city \<mapsto>
                      \<lparr>data = air_quality_payload avg utc all_stations, timestamp = now\<rparr>)\<rparr>)))"
  by (auto simp: air_quality_try_def station_lookup_def http_get_json_def Let_def
        split: sum.splits if_splits prod.splits py_error.splits)

lemma air_quality_try_stations_error:
  assumes "station_lookup net city s = Stations locs"
      and "fst (air_quality_try net fmt city now utc s) = Inl e"
  shows "unhandled e"
proof -
  let ?s1 = "s\<lparr>requested := requested s @ [locations_url city]\<rparr>"
  obtain r s' where f: "fetch_latest net fmt locs ([], []) ?s1 = (r, s')"
    by (cases "fetch_latest net fmt locs ([], []) ?s1")
  show ?thesis
  proof (cases r)
    case (Inl x)
    with f have "fst (fetch_latest net fmt locs ([], []) ?s1) = Inl x" by simp
    then have "unhandled x" by (rule fetch_latest_error)
    with assms f Inl show ?thesis by (simp add: air_quality_try_stations)
  next
    case (Inr acc)
    with assms f show ?thesis
      by (cases acc) (auto simp: air_quality_try_stations split: sum.splits dest: average_error)
  qed
qed

lemma air_quality_miss:
  "\<not> cache_hit s (''air_quality_'' @ city) now \<Longrightarrow>
   air_quality net fmt city now utc s = air_quality_refreshed net fmt city now utc s"
  by (simp add: air_quality_def)

lemma air_quality_hit:
  "cache_hit s (''air_quality_'' @ city) now \<Longrightarrow>
   air_quality net fmt city now utc s = (Inr (Value (data (the (CACHE s (''air_quality_'' @ city))))), s)"
  by (simp add: air_quality_def)

lemma air_quality_refreshed_failed:
  "station_lookup net city s = LookupFailed e \<Longrightarrow>
   air_quality_refreshed net fmt city now utc s =
     (Inr (Value (dummy_payload utc)),
      log (AirQualityFailed city e) (s\<lparr>requested := requested s @ [locations_url city]\<rparr>))"
  by (simp add: air_quality_refreshed_def air_quality_try_failed dummy_payload_def
        air_quality_payload_def dummy_aggregated_def)

lemma air_quality_refreshed_no_stations:
  "station_lookup net city s = NoStations \<Longrightarrow>
   air_quality_refreshed net fmt city now utc s =
     (Inr not_found, s\<lparr>requested := requested s @ [locations_url city]\<rparr>)"
  by (simp add: air_quality_refreshed_def air_quality_try_no_stations not_found_def)

lemma air_quality_refreshed_unreadable:
  "station_lookup net city s = Unreadable e \<Longrightarrow>
   air_quality_refreshed net fmt city now utc s =
     (Inl e, s\<lparr>requested := requested s @ [locations_url city]\<rparr>)"
  using air_quality_try_unreadable [of net city s e fmt now utc]
  by (cases e) (simp_all add: air_quality_refreshed_def)

lemma air_quality_refreshed_stations:
  assumes "station_lookup net city s = Stations locs"
  shows "air_quality_refreshed net fmt city now utc s =
           (case air_quality_try net fmt city now utc s of
              (Inr r, s') \<Rightarrow> (Inr (Value r), s') | (Inl e, s') \<Rightarrow> (Inl e, s'))"
proof (cases "air_quality_try net fmt city now utc s")
  case (Pair r s')
  show ?thesis
  proof (cases r)
    case (Inl e)
    with Pair assms have "unhandled e"
      using air_quality_try_stations_error [of net city s locs fmt now utc e] by simp
    with Pair Inl show ?thesis by (cases e) (simp_all add: air_quality_refreshed_def)
  next
    case (Inr v)
    with Pair show ?thesis by (simp add: air_quality_refreshed_def)
  qed
qed

lemma air_quality_refreshed_state:
  "requested (snd (air_quality_refreshed net fmt city now utc s))
     = requested (snd (air_quality_try net fmt city now utc s))
   \<and> CACHE (snd (air_quality_refreshed net fmt city now utc s))
     = CACHE (snd (air_quality_try net fmt city now utc s))"
proof (cases "air_quality_try net fmt city now utc s")
  case (Pair r s')
  show ?thesis
  proof (cases r)
    case (Inl e)
    with Pair show ?thesis by (cases e) (simp_all add: air_quality_refreshed_def log_def)
  next
    case (Inr v)
    with Pair show ?thesis by (simp add: air_quality_refreshed_def)
  qed
qed

lemma air_quality_try_requested:
  "\<exists>rest. requested (snd (air_quality_try net fmt city now utc s))
            = requested s @ locations_url city # rest"
proof (cases "station_lookup net city s")
  case (LookupFailed e)
  then show ?thesis by (simp add: air_quality_try_failed)
next
  case NoStations
  then show ?thesis by (simp add: air_quality_try_no_stations)
next
  case (Stations locs)
  let ?s1 = "s\<lparr>requested := requested s @ [locations_url city]\<rparr>"
  obtain q s2 where f: "fetch_latest net fmt locs ([], []) ?s1 = (q, s2)"
    by (cases "fetch_latest net fmt locs ([], []) ?s1")
  then obtain rest where "requested s2 = requested s @ locations_url city # rest"
    using fetch_latest_requested [of net fmt locs "([], [])" ?s1] by auto
  with Stations f show ?thesis
    by (auto simp: air_quality_try_stations split: sum.splits prod.splits)
next
  case (Unreadable e)
  then show ?thesis by (simp add: air_quality_try_unreadable)
qed

lemma air_quality_try_CACHE:
  "CACHE (snd (air_quality_try net fmt city now utc s)) = CACHE s
   \<or> (\<exists>locs r. station_lookup net city s = Stations locs
         \<and> fst (air_quality_try net fmt city now utc s) = Inr r
         \<and> CACHE (snd (air_quality_try net fmt city now utc s))
             = (CACHE s)(''air_quality_'' @ city \<mapsto> \<lparr>data = r, timestamp = now\<rparr>))"
proof (cases "station_lookup net city s")
  case (LookupFailed e)
  then show ?thesis by (simp add: air_quality_try_failed)
next
  case NoStations
  then show ?thesis by (simp add: air_quality_try_no_stations)
next
  case (Stations locs)
  let ?s1 = "s\<lparr>requested := requested s @ [locations_url city]\<rparr>"
  obtain q s2 where f: "fetch_latest net fmt locs ([], []) ?s1 = (q, s2)"
    by (cases "fetch_latest net fmt locs ([], []) ?s1")
  then have "CACHE s2 = CACHE s"
    using fetch_latest_CACHE [of net fmt locs "([], [])" ?s1] by simp
  with Stations f show ?thesis
    by (auto simp: air_quality_try_stations split: sum.splits prod.splits)
next
  case (Unreadable e)
  then show ?thesis by (simp add: air_quality_try_unreadable)
qed

lemma air_quality_miss_requested:
  assumes "\<not> cache_hit s (''air_quality_'' @ city) now"
  shows "\<exists>rest. requested (snd (air_quality net fmt city now utc s))
                 = requested s @ locations_url city # rest"
  using assms air_quality_try_requested [of net fmt city now utc s]
  by (simp add: air_quality_miss air_quality_refreshed_state)

subsection \<open>The lookup that fails, the lookup that finds nothing\<close>

text \<open>
  C7. When no fresh entry is cached for the city and the station lookup fails (one of
  \<^verbatim>\<open>requests.get\<close>, \<^verbatim>\<open>raise_for_status\<close> and \<^verbatim>\<open>json\<close> raises), \<^verbatim>\<open>air_quality\<close> returns,
  without raising, the dummy payload: the aggregated mapping is exactly pm25 20, pm10 35,
  no2 15, and the list of station records is empty.
\<close>

theorem air_quality_lookup_failed:
  assumes "\<not> cache_hit s (''air_quality_'' @ city) now"
      and "station_lookup net city s = LookupFailed err"
  shows "fst (air_quality net fmt city now utc s) =
           Inr (Value (PyDict
             [(KStr ''aggregated'',
               PyDict [(KStr ''pm25'', PyNum 20), (KStr ''pm10'', PyNum 35), (KStr ''no2'', PyNum 15)]),
              (KStr ''last_updated'', PyStr (datetime_isoformat utc @ ''Z'')),
              (KStr ''locations'', PyList [])]))"
  using assms by (simp add: air_quality_miss air_quality_refreshed_failed dummy_payload_def)

theorem air_quality_lookup_failed_witness:
  "fst (air_quality (scripted [Response 503 NotJson]) unprinted ''Tashkent'' 10 0 start) =
     Inr (Value (PyDict
       [(KStr ''aggregated'',
         PyDict [(KStr ''pm25'', PyNum 20), (KStr ''pm10'', PyNum 35), (KStr ''no2'', PyNum 15)]),
        (KStr ''last_updated'', PyStr (datetime_isoformat 0 @ ''Z'')),
        (KStr ''locations'', PyList [])]))"
  using air_quality_lookup_failed [of start "''Tashkent''" 10 "scripted [Response 503 NotJson]"
          "HTTPError 503" unprinted 0]
  by (simp add: cache_hit_def start_def station_lookup_def scripted_def outcome_json_def)

text \<open>
  C4. The 404 signal of \<^verbatim>\<open>air_quality\<close> is the \<^verbatim>\<open>JSONResponse\<close> that its own handler makes
  of the \<^verbatim>\<open>HTTPException\<close> raised in the \<^verbatim>\<open>try\<close>. It is returned exactly when the lookup
  is sent (no fresh entry is cached) and succeeds with no station. No other
  \<^verbatim>\<open>JSONResponse\<close> is ever returned, and no \<^verbatim>\<open>HTTPException\<close> leaves the endpoint.
\<close>

theorem air_quality_not_found_iff:
  "(fst (air_quality net fmt city now utc s) = Inr not_found
      \<longleftrightarrow> \<not> cache_hit s (''air_quality_'' @ city) now \<and> station_lookup net city s = NoStations)
   \<and> (\<forall>status_code content.
         fst (air_quality net fmt city now utc s) = Inr (JSONResponse status_code content)
           \<longrightarrow> JSONResponse status_code content = not_found)
   \<and> (\<forall>status_code detail.
         fst (air_quality net fmt city now utc s) \<noteq> Inl (HTTPException status_code detail))"
proof (cases "cache_hit s (''air_quality_'' @ city) now")
  case True
  then show ?thesis by (simp add: air_quality_hit not_found_def)
next
  case False
  note miss = air_quality_miss [OF False]
  show ?thesis
  proof (cases "station_lookup net city s")
    case (LookupFailed e)
    with False show ?thesis
      by (simp add: miss air_quality_refreshed_failed not_found_def)
  next
    case NoStations
    with False show ?thesis
      by (simp add: miss air_quality_refreshed_no_stations)
  next
    case (Stations locs)
    obtain r s' where t: "air_quality_try net fmt city now utc s = (r, s')"
      by (cases "air_quality_try net fmt city now utc s")
    show ?thesis
    proof (cases r)
      case (Inl e)
      with t Stations have "unhandled e"
        using air_quality_try_stations_error [of net city s locs fmt now utc e] by simp
      with t Inl Stations False show ?thesis
        by (cases e) (simp_all add: miss air_quality_refreshed_stations not_found_def)
    next
      case (Inr v)
      with t Stations False show ?thesis
        by (simp add: miss air_quality_refreshed_stations not_found_def)
    qed
  next
    case (Unreadable e)
    then have "unhandled e"
      using air_quality_try_unreadable [of net city s e fmt now utc] by simp
    with Unreadable False show ?thesis
      by (cases e) (simp_all add: miss air_quality_refreshed_unreadable not_found_def)
  qed
qed

text \<open>An empty list of results gives the 404; a lookup that fails does not.\<close>

theorem air_quality_not_found_iff_witness:
  "fst (air_quality (scripted [ok (PyDict [(KStr ''results'', PyList [])])]) unprinted ''Atlantis'' 10 0 start)
     = Inr (JSONResponse 404 (PyDict [(KStr ''detail'', PyStr ''No locations found for this city.'')]))
   \<and> fst (air_quality (scripted [Raises]) unprinted ''Atlantis'' 10 0 start)
     \<noteq> Inr (JSONResponse 404 (PyDict [(KStr ''detail'', PyStr ''No locations found for this city.'')]))"
  using air_quality_not_found_iff [of "scripted [ok (PyDict [(KStr ''results'', PyList [])])]"
          unprinted "''Atlantis''" 10 0 start, THEN conjunct1]
        air_quality_not_found_iff [of "scripted [Raises]" unprinted "''Atlantis''" 10 0 start, THEN conjunct1]
  by (simp add: cache_hit_def start_def station_lookup_def scripted_def ok_def outcome_json_def
        not_found_def)

text \<open>
  C10. When the lookup is sent and fails, or succeeds with no station, the endpoint returns
  the dummy payload or the 404 response and the cache is as it was; the next call for the
  city, at the same or a later reading of the clock, sends the lookup again. The cache
  changes in one case only: the lookup gave stations, the aggregation ran to its end, and
  the entry written is its result under the key of the city.
\<close>

theorem air_quality_failure_not_cached:
  "(\<not> cache_hit s (''air_quality_'' @ city) now
      \<and> (station_lookup net city s = LookupFailed err \<or> station_lookup net city s = NoStations)
      \<and> now \<le> now'
    \<longrightarrow> fst (air_quality net fmt city now utc s)
          = (if station_lookup net city s = NoStations then Inr not_found
             else Inr (Value (dummy_payload utc)))
        \<and> CACHE (snd (air_quality net fmt city now utc s)) = CACHE s
        \<and> (\<exists>rest. requested (snd (air_quality net fmt city now' utc'
                                      (snd (air_quality net fmt city now utc s))))
                     = requested s @ [locations_url city, locations_url city] @ rest))
   \<and> (CACHE (snd (air_quality net fmt city now utc s)) \<noteq> CACHE s
    \<longrightarrow> (\<exists>locs r. station_lookup net city s = Stations locs
          \<and> fst (air_quality net fmt city now utc s) = Inr (Value r)
          \<and> CACHE (snd (air_quality net fmt city now utc s))
              = (CACHE s)(''air_quality_'' @ city \<mapsto> \<lparr>data = r, timestamp = now\<rparr>)))"
proof (rule conjI; rule impI)
  assume a: "\<not> cache_hit s (''air_quality_'' @ city) now
      \<and> (station_lookup net city s = LookupFailed err \<or> station_lookup net city s = NoStations)
      \<and> now \<le> now'"
  let ?r = "air_quality net fmt city now utc s"
  from a have res: "fst ?r = (if station_lookup net city s = NoStations then Inr not_found
                      else Inr (Value (dummy_payload utc)))"
    by (auto simp: air_quality_miss air_quality_refreshed_failed air_quality_refreshed_no_stations)
  from a have same: "CACHE (snd ?r) = CACHE s"
    by (auto simp: air_quality_miss air_quality_refreshed_failed air_quality_refreshed_no_stations
          log_def)
  from a have req: "requested (snd ?r) = requested s @ [locations_url city]"
    by (auto simp: air_quality_miss air_quality_refreshed_failed air_quality_refreshed_no_stations
          log_def)
  from a have "\<not> cache_hit s (''air_quality_'' @ city) now'"
    using stale_stays_stale by blast
  with same have "\<not> cache_hit (snd ?r) (''air_quality_'' @ city) now'"
    by (simp add: cache_hit_def)
  from air_quality_miss_requested [OF this, of net fmt utc'] req
  have again: "\<exists>rest. requested (snd (air_quality net fmt city now' utc' (snd ?r)))
                 = requested s @ [locations_url city, locations_url city] @ rest"
    by simp
  from res same again
  show "fst ?r = (if station_lookup net city s = NoStations then Inr not_found
                  else Inr (Value (dummy_payload utc)))
        \<and> CACHE (snd ?r) = CACHE s
        \<and> (\<exists>rest. requested (snd (air_quality net fmt city now' utc' (snd ?r)))
                     = requested s @ [locations_url city, locations_url city] @ rest)"
    by blast
next
  assume changed: "CACHE (snd (air_quality net fmt city now utc s)) \<noteq> CACHE s"
  then have miss: "\<not> cache_hit s (''air_quality_'' @ city) now"
    by (auto simp: air_quality_hit)
  with changed have "CACHE (snd (air_quality_try net fmt city now utc s)) \<noteq> CACHE s"
    by (simp add: air_quality_miss air_quality_refreshed_state)
  with air_quality_try_CACHE [of net fmt city now utc s]
  obtain locs r where l: "station_lookup net city s = Stations locs"
    and r: "fst (air_quality_try net fmt city now utc s) = Inr r"
    and c: "CACHE (snd (air_quality_try net fmt city now utc s))
             = (CACHE s)(''air_quality_'' @ city \<mapsto> \<lparr>data = r, timestamp = now\<rparr>)"
    by blast
  from r have "fst (air_quality_refreshed net fmt city now utc s) = Inr (Value r)"
    by (cases "air_quality_try net fmt city now utc s") (simp add: air_quality_refreshed_def)
  with l c miss
  show "\<exists>locs r. station_lookup net city s = Stations locs
          \<and> fst (air_quality net fmt city now utc s) = Inr (Value r)
          \<and> CACHE (snd (air_quality net fmt city now utc s))
              = (CACHE s)(''air_quality_'' @ city \<mapsto> \<lparr>data = r, timestamp = now\<rparr>)"
    by (simp add: air_quality_miss air_quality_refreshed_state)
qed

theorem air_quality_failure_not_cached_witness:
  "fst (air_quality (scripted [Raises]) unprinted ''Tashkent'' 10 0 start) = Inr (Value (dummy_payload 0))
   \<and> CACHE (snd (air_quality (scripted [Raises]) unprinted ''Tashkent'' 10 0 start)) = CACHE start
   \<and> (\<exists>rest. requested (snd (air_quality (scripted [Raises]) unprinted ''Tashkent'' 20 5
                  (snd (air_quality (scripted [Raises]) unprinted ''Tashkent'' 10 0 start))))
         = [locations_url ''Tashkent'', locations_url ''Tashkent''] @ rest)"
  using air_quality_failure_not_cached [of start "''Tashkent''" 10 "scripted [Raises]"
          TransportError 20 unprinted 0 5]
  by (simp add: cache_hit_def start_def station_lookup_def scripted_def outcome_json_def)

section \<open>What a failing upstream does to each endpoint\<close>

lemma collect_error: "collect f xs = Inl e \<Longrightarrow> \<exists>x\<in>set xs. f x = Inl e"
  by (induction xs) (auto split: sum.splits)


lemma fetch_and_cache_error:
  assumes "fst (fetch_and_cache net url fb cache_key now s) = Inl e"
  shows "unhandled e"
proof (cases "outcome_json (net (length (requested s)) url)")
  case (Inl x)
  from outcome_json_unhandled [OF Inl] show ?thesis
  proof
    assume "\<exists>r. x = RequestException r"
    with Inl assms show ?thesis
      by (auto simp: fetch_and_cache_def Let_def fetch_new_data_fails split: if_splits)
  next
    assume "unhandled x"
    with Inl assms show ?thesis
      by (auto simp: fetch_and_cache_def Let_def fetch_new_data_raises split: if_splits)
  qed
next
  case (Inr d)
  with assms show ?thesis
    by (auto simp: fetch_and_cache_def Let_def fetch_new_data_succeeds split: if_splits)
qed

lemma air_quality_error:
  assumes "fst (air_quality net fmt city now utc s) = Inl e"
  shows "unhandled e"
proof (cases "cache_hit s (''air_quality_'' @ city) now")
  case True
  with assms show ?thesis by (simp add: air_quality_hit)
next
  case False
  note miss = air_quality_miss [OF False]
  show ?thesis
  proof (cases "station_lookup net city s")
    case (LookupFailed x)
    with assms show ?thesis by (simp add: miss air_quality_refreshed_failed)
  next
    case NoStations
    with assms show ?thesis by (simp add: miss air_quality_refreshed_no_stations)
  next
    case (Stations locs)
    with assms have "fst (air_quality_try net fmt city now utc s) = Inl e"
      by (cases "air_quality_try net fmt city now utc s")
         (auto simp: miss air_quality_refreshed_stations split: sum.splits)
    with Stations show ?thesis by (rule air_quality_try_stations_error)
  next
    case (Unreadable x)
    with assms air_quality_try_unreadable [of net city s x fmt now utc] show ?thesis
      by (simp add: miss air_quality_refreshed_unreadable)
  qed
qed

lemma fallback_measurement_error: "fallback_measurement utc i = Inl e \<Longrightarrow> e = OverflowError"
  by (auto simp: fallback_measurement_def minus_hours_def split: sum.splits if_splits)

lemma measurements_error:
  assumes "fst (measurements net location parameter limit utc now s) = Inl e"
  shows "unhandled e"
proof (cases "collect (fallback_measurement utc) [0..<nat limit]")
  case (Inl x)
  then have "x = OverflowError"
    by (auto dest!: collect_error fallback_measurement_error)
  with Inl assms show ?thesis by (simp add: measurements_def)
next
  case (Inr results)
  with assms show ?thesis by (auto simp: measurements_def dest: fetch_and_cache_error)
qed

lemma forecast_date_error: "forecast_date base i = Inl e \<Longrightarrow> e = OverflowError"
  by (auto simp: forecast_date_def plus_days_def split: sum.splits if_splits)

lemma perturbed_error: "perturbed temp shift r = Inl e \<Longrightarrow> e = TypeError \<or> e = OverflowError"
  by (auto simp: perturbed_def split: sum.splits if_splits dest: py_number_error)

lemma naive_forecast_error:
  "naive_forecast temp base rnd days = Inl e \<Longrightarrow> e = OverflowError \<or> e = TypeError"
  by (auto simp: naive_forecast_def Let_def split: sum.splits
        dest!: collect_error forecast_date_error perturbed_error)

lemma forecast_error:
  assumes "fst (forecast net fmt rnd lat lon days utc s) = Inl e"
  shows "unhandled e"
proof (cases "outcome_json (net (length (requested s)) (forecast_url fmt lat lon days))")
  case (Inl x)
  from outcome_json_unhandled [OF Inl] show ?thesis
  proof
    assume "\<exists>r. x = RequestException r"
    then obtain r where x: "x = RequestException r" by blast
    with Inl assms have "naive_forecast
        (fst (current_temperature net (current_weather_url fmt lat lon)
           (log (ForecastFailed (fstr fmt (PyNum lat)) (fstr fmt (PyNum lon)) r)
              (s\<lparr>requested := requested s @ [forecast_url fmt lat lon days]\<rparr>)))) utc rnd (nat days) = Inl e"
      by (simp add: forecast_def http_get_json_def split: prod.splits)
    then show ?thesis by (auto dest: naive_forecast_error)
  next
    assume u: "unhandled x"
    with Inl assms have "e = x"
      by (cases x) (simp_all add: forecast_def http_get_json_def)
    with u show ?thesis by simp
  qed
next
  case (Inr d)
  with assms show ?thesis
    by (auto simp: forecast_def http_get_json_def split: sum.splits dest: py_get_error)
qed

lemma current_weather_fails:
  "outcome_json (net (length (requested s)) (current_weather_url fmt lat lon)) = Inl (RequestException x) \<Longrightarrow>
   current_weather net fmt exc_text lat lon s =
     (Inl (HTTPException 502 (''Open-Meteo request failed: '' @ exc_text x)),
      log (CurrentWeatherFailed (fstr fmt (PyNum lat)) (fstr fmt (PyNum lon)) x)
        (s\<lparr>requested := requested s @ [current_weather_url fmt lat lon]\<rparr>))"
  by (simp add: current_weather_def http_get_json_def)

text \<open>
  C6, as the code has it. No failure of an upstream request that is a
  \<^verbatim>\<open>RequestException\<close> (a transport error, a status from 400 to 599, a body that is not
  JSON) is ever raised to the caller by \<^verbatim>\<open>fetch_and_cache\<close>, \<^verbatim>\<open>air_quality\<close>,
  \<^verbatim>\<open>measurements\<close> or \<^verbatim>\<open>forecast\<close>, nor is any \<^verbatim>\<open>HTTPException\<close> (the 404 of
  \<^verbatim>\<open>air_quality\<close> is a response it returns); the fetch that fails so returns its fallback
  (and \<^verbatim>\<open>measurements\<close> with it, whose fallback list is built before the fetch), and
  \<^verbatim>\<open>air_quality\<close>, when its lookup fails so, returns a value. \<^verbatim>\<open>current_weather\<close> is the
  exception: when its request fails so, it raises an \<^verbatim>\<open>HTTPException\<close> with status 502 to
  its caller.
\<close>

theorem failures_absorbed_except_current_weather:
  "(\<forall>x. fst (fetch_and_cache net url fb cache_key now s) \<noteq> Inl (RequestException x))
   \<and> (\<forall>x. fst (air_quality net fmt city now utc s) \<noteq> Inl (RequestException x))
   \<and> (\<forall>x. fst (measurements net location parameter limit utcs now s) \<noteq> Inl (RequestException x))
   \<and> (\<forall>x. fst (forecast net fmt rnd lat lon days utc s) \<noteq> Inl (RequestException x))
   \<and> (\<forall>status_code detail.
          fst (fetch_and_cache net url fb cache_key now s) \<noteq> Inl (HTTPException status_code detail)
        \<and> fst (air_quality net fmt city now utc s) \<noteq> Inl (HTTPException status_code detail)
        \<and> fst (measurements net location parameter limit utcs now s) \<noteq> Inl (HTTPException status_code detail)
        \<and> fst (forecast net fmt rnd lat lon days utc s) \<noteq> Inl (HTTPException status_code detail))
   \<and> (\<forall>x. \<not> cache_hit s (key_or_url cache_key url) now
            \<and> outcome_json (net (length (requested s)) url) = Inl (RequestException x)
          \<longrightarrow> fst (fetch_and_cache net url fb cache_key now s) = Inr fb)
   \<and> (\<forall>x results.
            collect (fallback_measurement utcs) [0..<nat limit] = Inr results
            \<and> \<not> cache_hit s (''measurements_'' @ location @ ''_'' @ parameter) now
            \<and> outcome_json (net (length (requested s)) (measurements_url location parameter limit))
                = Inl (RequestException x)
          \<longrightarrow> fst (measurements net location parameter limit utcs now s)
                = Inr (PyDict [(KStr ''results'', PyList results)]))
   \<and> (\<forall>x. \<not> cache_hit s (''air_quality_'' @ city) now
            \<and> outcome_json (net (length (requested s)) (locations_url city)) = Inl (RequestException x)
          \<longrightarrow> (\<exists>v. fst (air_quality net fmt city now utc s) = Inr (Value v)))
   \<and> (\<forall>x. outcome_json (net (length (requested s)) (current_weather_url fmt lat lon))
              = Inl (RequestException x) \<longrightarrow>
          fst (current_weather net fmt exc_text lat lon s)
            = Inl (HTTPException 502 (''Open-Meteo request failed: '' @ exc_text x)))"
proof -
  have never: "r \<noteq> Inl (RequestException x) \<and> r \<noteq> Inl (HTTPException status_code detail)"
    if "\<And>e. r = Inl e \<Longrightarrow> unhandled e" for r :: "py_error + 'a" and x status_code detail
    using that by (cases r) auto
  note f = never [of "fst (fetch_and_cache net url fb cache_key now s)", OF fetch_and_cache_error]
  note a = never [of "fst (air_quality net fmt city now utc s)", OF air_quality_error]
  note m = never [of "fst (measurements net location parameter limit utcs now s)", OF measurements_error]
  note c = never [of "fst (forecast net fmt rnd lat lon days utc s)", OF forecast_error]
  have fb: "fst (fetch_and_cache net url fb cache_key now s) = Inr fb"
    if "\<not> cache_hit s (key_or_url cache_key url) now"
      "outcome_json (net (length (requested s)) url) = Inl (RequestException x)" for x
    using that by (simp add: fetch_and_cache_def fetch_new_data_fails)
  have ms: "fst (measurements net location parameter limit utcs now s)
              = Inr (PyDict [(KStr ''results'', PyList results)])"
    if "collect (fallback_measurement utcs) [0..<nat limit] = Inr results"
      "\<not> cache_hit s (''measurements_'' @ location @ ''_'' @ parameter) now"
      "outcome_json (net (length (requested s)) (measurements_url location parameter limit))
         = Inl (RequestException x)" for x results
    using that by (simp add: measurements_def fetch_and_cache_def key_or_url_def fetch_new_data_fails)
  have aq: "\<exists>v. fst (air_quality net fmt city now utc s) = Inr (Value v)"
    if "\<not> cache_hit s (''air_quality_'' @ city) now"
      "outcome_json (net (length (requested s)) (locations_url city)) = Inl (RequestException x)" for x
  proof -
    from that(2) have "station_lookup net city s = LookupFailed x"
      by (simp add: station_lookup_def)
    with that(1) show ?thesis by (simp add: air_quality_miss air_quality_refreshed_failed)
  qed
  from f a m c fb ms aq show ?thesis
    by (simp add: current_weather_fails)
qed

text \<open>
  Every upstream answers 500: the fetch returns its fallback, \<^verbatim>\<open>measurements\<close> its two
  fallback elements, \<^verbatim>\<open>air_quality\<close> a value, and \<^verbatim>\<open>current_weather\<close> raises.
\<close>

theorem failures_absorbed_except_current_weather_witness:
  "fst (fetch_and_cache (scripted [Response 500 NotJson]) ''u'' (PyStr ''fallback'') None 10 start)
     = Inr (PyStr ''fallback'')
   \<and> (\<exists>a b. fst (measurements (scripted [Response 500 NotJson]) ''A'' ''pm25'' 2 (\<lambda>i. 86400000000) 10 start)
        = Inr (PyDict [(KStr ''results'', PyList [a, b])]))
   \<and> (\<exists>v. fst (air_quality (scripted [Response 500 NotJson]) unprinted ''Tashkent'' 10 0 start)
        = Inr (Value v))
   \<and> fst (current_weather (scripted [Response 500 NotJson]) unprinted cause 41 69 start)
     = Inl (HTTPException 502 ''Open-Meteo request failed: cause'')"
proof -
  let ?net = "scripted [Response 500 NotJson]"
  note t = failures_absorbed_except_current_weather
    [where net = ?net and s = start and fmt = unprinted and exc_text = cause and lat = 41
       and lon = 69 and url = "''u''" and fb = "PyStr ''fallback''" and cache_key = None
       and now = 10 and city = "''Tashkent''" and utc = 0 and location = "''A''"
       and parameter = "''pm25''" and limit = 2 and utcs = "\<lambda>i. 86400000000"]
  have fails: "outcome_json (?net (length (requested start)) url) = Inl (RequestException (HTTPError 500))"
    for url
    by (simp add: outcome_json_def scripted_def start_def)
  have miss: "\<not> cache_hit start key 10" for key
    by (simp add: cache_hit_def start_def)
  obtain a b where built: "collect (fallback_measurement (\<lambda>i. 86400000000)) [0..<nat 2] = Inr [a, b]"
    by (simp add: fallback_measurement_def minus_hours_def in_range_def MAXORDINAL_def
          us_per_day_def upt_conv_Cons)
  from t have 1: "fst (fetch_and_cache ?net ''u'' (PyStr ''fallback'') None 10 start)
                    = Inr (PyStr ''fallback'')"
    using fails miss by blast
  from t have 2: "fst (measurements ?net ''A'' ''pm25'' 2 (\<lambda>i. 86400000000) 10 start)
                    = Inr (PyDict [(KStr ''results'', PyList [a, b])])"
    using fails miss built by blast
  from t have 3: "\<exists>v. fst (air_quality ?net unprinted ''Tashkent'' 10 0 start) = Inr (Value v)"
    using fails miss by blast
  from t have 4: "fst (current_weather ?net unprinted cause 41 69 start)
                    = Inl (HTTPException 502 (''Open-Meteo request failed: '' @ cause (HTTPError 500)))"
    using fails by blast
  from 1 2 3 4 show ?thesis by (simp add: cause_def)
qed

text \<open>
  The weather service is unreachable: \<^verbatim>\<open>current_weather\<close> does not return, it raises.
\<close>

theorem current_weather_raises_counterexample:
  "fst (current_weather (scripted [Raises]) unprinted cause 41 69 start)
     = Inl (HTTPException 502 ''Open-Meteo request failed: cause'')"
  by (simp add: current_weather_def http_get_json_def outcome_json_def scripted_def start_def cause_def)

section \<open>The fallback forecast\<close>















section \<open>The cities of a country\<close>

text \<open>
  On readable locations the loop of \<^verbatim>\<open>get_cities\<close> gathers the city names, each once.
\<close>

lemma collect_cities_readable:
  assumes "list_all readable_location locs"
  shows "collect_cities locs (map (\<lambda>c. (KStr c, PyStr c)) acc)
           = Inr (map (\<lambda>c. (KStr c, PyStr c)) (fold List.insert (city_names locs) acc))"
  using assms
proof (induction locs arbitrary: acc)
  case Nil
  show ?case by (simp add: city_names_def List.map_filter_simps)
next
  case (Cons loc locs)
  from Cons.prems have r: "readable_location loc" and rest: "list_all readable_location locs"
    by simp_all
  note IH = Cons.IH [OF rest]
  have absent: "map_of (map (\<lambda>c. (KStr c, PyStr c)) acc) (KStr c) = None \<longleftrightarrow> c \<notin> set acc" for c
    by (induction acc) auto
  have ins: "set_add (KStr c) (PyStr c) (map (\<lambda>c. (KStr c, PyStr c)) acc)
               = map (\<lambda>c. (KStr c, PyStr c)) (List.insert c acc)" for c
    by (simp add: set_add_def absent List.insert_def)
  from r show ?case
  proof (cases loc)
    case (PyDict kvs)
    show ?thesis
    proof (cases "map_of kvs (KStr ''boundary'')")
      case None
      with PyDict IH [of acc] show ?thesis
        by (simp add: city_names_def List.map_filter_simps)
    next
      case (Some b)
      show ?thesis
      proof (cases "\<exists>bk. b = PyDict bk")
        case False
        with r PyDict Some have "\<not> py_truthy b" by (cases b) simp_all
        moreover from False PyDict Some have "city_name loc = None" by (cases b) simp_all
        ultimately show ?thesis using PyDict Some IH [of acc]
          by (simp add: city_names_def List.map_filter_simps)
      next
        case True
        then obtain bk where b: "b = PyDict bk" by blast
        show ?thesis
        proof (cases "map_of bk (KStr ''city'')")
          case None
          with PyDict Some b IH [of acc] show ?thesis
            by (simp add: city_names_def List.map_filter_simps)
        next
          case city: (Some c)
          show ?thesis
          proof (cases "\<exists>str. c = PyStr str")
            case False
            with r PyDict Some b city have "\<not> py_truthy c" by (cases c) simp_all
            moreover from False PyDict Some b city have "city_name loc = None" by (cases c) simp_all
            ultimately show ?thesis using PyDict Some b city IH [of acc]
              by (simp add: city_names_def List.map_filter_simps)
          next
            case True
            then obtain str where c: "c = PyStr str" by blast
            with PyDict Some b city IH [of acc] IH [of "List.insert str acc"] show ?thesis
              by (auto simp: city_names_def List.map_filter_simps ins)
          qed
        qed
      qed
    qed
  qed simp_all
qed

lemma fold_insert_set: "set (fold List.insert xs acc) = set xs \<union> set acc"
  by (induction xs arbitrary: acc) auto

lemma fold_insert_distinct: "distinct acc \<Longrightarrow> distinct (fold List.insert xs acc)"
  by (induction xs arbitrary: acc) auto

lemma map_filter_the_KStr: "List.map_filter the_KStr (map KStr ss) = ss"
  by (induction ss) (simp_all add: List.map_filter_simps)

lemma py_sorted_strings: "py_sorted (map KStr ss) = Inr (map KStr (sort ss))"
proof (cases ss)
  case Nil
  then show ?thesis by (simp add: py_sorted_def)
next
  case (Cons a as)
  show ?thesis
  proof (cases as)
    case Nil
    with Cons show ?thesis by (simp add: py_sorted_def)
  next
    case (Cons b bs)
    have "list_all (\<lambda>k. the_KStr k \<noteq> None) (map KStr ss)"
      by (simp add: list_all_iff)
    then show ?thesis
      using \<open>ss = a # as\<close> Cons by (simp add: py_sorted_def map_filter_the_KStr del: sort_key_simps)
  qed
qed

lemma fallback_results_payload:
  "PyDict [(KStr ''cities'', fallback_results)] = cities_payload [''Tashkent'', ''New York'', ''Delhi'']"
  by (simp add: fallback_results_def cities_payload_def)

lemma cities_of_readable:
  assumes "py_get d ''results'' (PyList []) = Inr (PyList locs)"
      and "list_all readable_location locs"
  shows "cities_of d =
           Inr (if city_names locs = [] then cities_payload [''Tashkent'', ''New York'', ''Delhi'']
                else cities_payload (sort (fold List.insert (city_names locs) [])))"
proof -
  let ?names = "fold List.insert (city_names locs) []"
  have c: "collect_cities locs [] = Inr (map (\<lambda>c. (KStr c, PyStr c)) ?names)"
    using collect_cities_readable [OF assms(2), of "[]"] by simp
  have k: "map fst (map (\<lambda>c. (KStr c, PyStr c)) ?names) = map KStr ?names"
    by simp
  have e: "?names = [] \<longleftrightarrow> city_names locs = []"
    using fold_insert_set [of "city_names locs" "[]"] by (metis set_empty sup_bot.right_neutral)
  have s: "sort xs = [] \<longleftrightarrow> xs = []" for xs :: "string list"
    by (metis set_empty set_sort)
  have "element (map (\<lambda>c. (KStr c, PyStr c)) xs) (KStr c) = PyStr c" for xs c
    by (induction xs) (simp_all add: element_def)
  then have el: "map (\<lambda>c. PyDict [(KStr ''city'', element (map (\<lambda>c. (KStr c, PyStr c)) xs) c)]) (map KStr ys)
              = map (\<lambda>c. PyDict [(KStr ''city'', PyStr c)]) ys" for xs ys
    by simp
  show ?thesis
    using assms(1) e
    by (simp add: cities_of_def c k py_sorted_strings s el fallback_results_payload cities_payload_def
          del: sort_key_simps map_map)
qed

lemma not_sorted_fallback: "\<not> sorted [''Tashkent'', ''New York'', ''Delhi'']"
  by simp

lemma get_cities_fetch:
  "fetch_and_cache net (cities_url country) (PyDict [(KStr ''results'', PyList [])])
     (Some (''cities_'' @ country)) now s = (Inr d, s')
   \<Longrightarrow> get_cities net country now s = (cities_of d, s')"
  by (simp add: get_cities_def)

text \<open>
  C9. Let \<^verbatim>\<open>fetch_and_cache\<close> give \<^verbatim>\<open>get_cities\<close> data whose \<^verbatim>\<open>"results"\<close> is a list of
  readable locations. Then \<^verbatim>\<open>get_cities\<close> returns a list of cities. If at least one name
  is extracted, the list holds the extracted names, each once, in ascending order. If none
  is, it is the fixed list Tashkent, New York, Delhi, and it is that list in no other case.
  No name is extracted, in particular, when the request for the locations fails with a
  \<^verbatim>\<open>RequestException\<close>: the fetch then gives the empty result set, and the fixed list is
  returned whatever the upstream would have sent.
\<close>

theorem get_cities_sorted_or_fallback:
  "(fetch_and_cache net (cities_url country) (PyDict [(KStr ''results'', PyList [])])
        (Some (''cities_'' @ country)) now s = (Inr d, s')
      \<and> py_get d ''results'' (PyList []) = Inr (PyList locs)
      \<and> list_all readable_location locs
    \<longrightarrow> (\<exists>cs. get_cities net country now s = (Inr (cities_payload cs), s')
            \<and> (city_names locs \<noteq> [] \<longrightarrow>
                  sorted cs \<and> distinct cs \<and> set cs = set (city_names locs))
            \<and> (cs = [''Tashkent'', ''New York'', ''Delhi''] \<longleftrightarrow> city_names locs = [])))
   \<and> (\<not> cache_hit s (''cities_'' @ country) now
      \<and> outcome_json (net (length (requested s)) (cities_url country)) = Inl (RequestException err)
    \<longrightarrow> fst (get_cities net country now s)
          = Inr (cities_payload [''Tashkent'', ''New York'', ''Delhi'']))"
proof (rule conjI; rule impI)
  assume a: "fetch_and_cache net (cities_url country) (PyDict [(KStr ''results'', PyList [])])
        (Some (''cities_'' @ country)) now s = (Inr d, s')
      \<and> py_get d ''results'' (PyList []) = Inr (PyList locs)
      \<and> list_all readable_location locs"
  let ?names = "city_names locs"
  let ?cs = "if ?names = [] then [''Tashkent'', ''New York'', ''Delhi'']
             else sort (fold List.insert ?names [])"
  from a have g: "get_cities net country now s = (Inr (cities_payload ?cs), s')"
    by (simp only: get_cities_fetch cities_of_readable if_distrib [of cities_payload] if_distrib [of Inr])
  have p: "sorted ?cs \<and> distinct ?cs \<and> set ?cs = set ?names" if "?names \<noteq> []"
    using that by (simp add: fold_insert_set fold_insert_distinct del: sort_key_simps)
  have q: "?cs = [''Tashkent'', ''New York'', ''Delhi''] \<longleftrightarrow> ?names = []"
  proof (cases "?names = []")
    case True
    then show ?thesis by simp
  next
    case False
    from p [OF False] have "sorted ?cs" by blast
    have "?cs \<noteq> [''Tashkent'', ''New York'', ''Delhi'']"
    proof
      assume "?cs = [''Tashkent'', ''New York'', ''Delhi'']"
      with \<open>sorted ?cs\<close> have "sorted [''Tashkent'', ''New York'', ''Delhi'']" by (simp only:)
      with not_sorted_fallback show False by blast
    qed
    with False show ?thesis by blast
  qed
  from g p q
  show "\<exists>cs. get_cities net country now s = (Inr (cities_payload cs), s')
            \<and> (city_names locs \<noteq> [] \<longrightarrow>
                  sorted cs \<and> distinct cs \<and> set cs = set (city_names locs))
            \<and> (cs = [''Tashkent'', ''New York'', ''Delhi''] \<longleftrightarrow> city_names locs = [])"
    by (intro exI [of _ ?cs]) blast
next
  assume "\<not> cache_hit s (''cities_'' @ country) now
      \<and> outcome_json (net (length (requested s)) (cities_url country)) = Inl (RequestException err)"
  then have "fetch_and_cache net (cities_url country) (PyDict [(KStr ''results'', PyList [])])
        (Some (''cities_'' @ country)) now s
      = (Inr (PyDict [(KStr ''results'', PyList [])]),
         log (ApiRequestFailed (cities_url country) err)
           (s\<lparr>requested := requested s @ [cities_url country]\<rparr>))"
    by (simp add: fetch_and_cache_def Let_def key_or_url_def fetch_new_data_fails)
  then show "fst (get_cities net country now s)
          = Inr (cities_payload [''Tashkent'', ''New York'', ''Delhi''])"
    by (simp add: get_cities_fetch cities_of_def py_sorted_def fallback_results_payload)
qed

text \<open>
  Four locations of Uzbekistan, one without a boundary and two of Tashkent: the cities are
  Samarkand and Tashkent. The same request answered with 500: the fixed list.
\<close>

theorem get_cities_sorted_or_fallback_witness:
  "(\<exists>cs. fst (get_cities
        (scripted [ok (PyDict [(KStr ''results'',
           PyList [PyDict [(KStr ''boundary'', PyDict [(KStr ''city'', PyStr ''Tashkent'')])],
                   PyDict [(KStr ''name'', PyStr ''no boundary'')],
                   PyDict [(KStr ''boundary'', PyDict [(KStr ''city'', PyStr ''Samarkand'')])],
                   PyDict [(KStr ''boundary'', PyDict [(KStr ''city'', PyStr ''Tashkent'')])]])])])
        ''UZ'' 10 start) = Inr (cities_payload cs)
      \<and> sorted cs \<and> distinct cs \<and> set cs = {''Tashkent'', ''Samarkand''})
   \<and> fst (get_cities (scripted [Response 500 NotJson]) ''UZ'' 10 start)
       = Inr (cities_payload [''Tashkent'', ''New York'', ''Delhi''])"
proof -
  let ?locs = "[PyDict [(KStr ''boundary'', PyDict [(KStr ''city'', PyStr ''Tashkent'')])],
                PyDict [(KStr ''name'', PyStr ''no boundary'')],
                PyDict [(KStr ''boundary'', PyDict [(KStr ''city'', PyStr ''Samarkand'')])],
                PyDict [(KStr ''boundary'', PyDict [(KStr ''city'', PyStr ''Tashkent'')])]]"
  let ?d = "PyDict [(KStr ''results'', PyList ?locs)]"
  let ?net = "scripted [ok ?d]"
  let ?f = "fetch_and_cache ?net (cities_url ''UZ'') (PyDict [(KStr ''results'', PyList [])])
              (Some (''cities_'' @ ''UZ'')) 10 start"
  have "fst ?f = Inr ?d"
    by (simp add: fetch_and_cache_def Let_def key_or_url_def cache_hit_def start_def
          fetch_new_data_def http_get_json_def outcome_json_def scripted_def ok_def)
  then have f: "?f = (Inr ?d, snd ?f)" by (simp add: prod_eq_iff)
  have names: "city_names ?locs = [''Tashkent'', ''Samarkand'', ''Tashkent'']"
    by (simp add: city_names_def List.map_filter_simps)
  have prem: "?f = (Inr ?d, snd ?f)
      \<and> py_get ?d ''results'' (PyList []) = Inr (PyList ?locs)
      \<and> list_all readable_location ?locs"
  proof (intro conjI)
    show "?f = (Inr ?d, snd ?f)" by (rule f)
  qed simp_all
  from get_cities_sorted_or_fallback
         [where net = ?net and country = "''UZ''" and now = 10 and s = start and d = ?d
            and s' = "snd ?f" and locs = ?locs, THEN conjunct1, THEN mp, OF prem]
  have "\<exists>cs. get_cities ?net ''UZ'' 10 start = (Inr (cities_payload cs), snd ?f)
          \<and> (city_names ?locs \<noteq> [] \<longrightarrow>
                sorted cs \<and> distinct cs \<and> set cs = set (city_names ?locs))
          \<and> (cs = [''Tashkent'', ''New York'', ''Delhi''] \<longleftrightarrow> city_names ?locs = [])" .
  then obtain cs where g: "get_cities ?net ''UZ'' 10 start = (Inr (cities_payload cs), snd ?f)"
    and p: "city_names ?locs \<noteq> [] \<longrightarrow> sorted cs \<and> distinct cs \<and> set cs = set (city_names ?locs)"
    by blast
  have "city_names ?locs \<noteq> []" by (simp only: names) blast
  with p have so: "sorted cs" and di: "distinct cs" and se: "set cs = set (city_names ?locs)"
    by blast+
  have "set [''Tashkent'', ''Samarkand'', ''Tashkent''] = {''Tashkent'', ''Samarkand''}"
    by (simp add: insert_commute)
  with se have c: "set cs = {''Tashkent'', ''Samarkand''}" by (simp only: names)
  from g have "fst (get_cities ?net ''UZ'' 10 start) = Inr (cities_payload cs)"
    by (simp only: fst_conv)
  with so di c have first: "\<exists>cs. fst (get_cities ?net ''UZ'' 10 start) = Inr (cities_payload cs)
      \<and> sorted cs \<and> distinct cs \<and> set cs = {''Tashkent'', ''Samarkand''}"
    by blast
  have "\<not> cache_hit start (''cities_'' @ ''UZ'') 10
      \<and> outcome_json (scripted [Response 500 NotJson] (length (requested start)) (cities_url ''UZ''))
          = Inl (RequestException (HTTPError 500))"
    by (simp add: cache_hit_def start_def outcome_json_def scripted_def)
  with get_cities_sorted_or_fallback
         [where net = "scripted [Response 500 NotJson]" and country = "''UZ''" and now = 10
            and s = start and err = "HTTPError 500", THEN conjunct2]
  have second: "fst (get_cities (scripted [Response 500 NotJson]) ''UZ'' 10 start)
       = Inr (cities_payload [''Tashkent'', ''New York'', ''Delhi''])"
    by blast
  from first second show ?thesis by blast
qed

section \<open>The readings behind the averages\<close>

subsection \<open>What the accumulators hold\<close>

















subsection \<open>The averages\<close>





subsection \<open>Data of the expected shape is read without an exception\<close>
















subsection \<open>One station fails, the others are aggregated\<close>




subsection \<open>The aggregated mapping\<close>




end
